theory Spec2Isabelle
  imports Complex_Main "HOL-Library.Sublist" "HOL-Library.AList"
begin

section \<open>Exceptions\<close>

text \<open>
  The exceptions that the modelled code raises or catches. \<open>EnvironmentError\<close> stands for
  the class and its subclasses (\<open>IOError\<close>, \<open>OSError\<close>); its argument is the \<open>errno\<close>
  attribute, \<open>None\<close> when the exception was built from a message only.
  A function that can raise returns \<open>exn + 'a\<close>, \<open>Inl\<close> being the raised exception.
\<close>

datatype exn =
    EnvironmentError "int option"
  | UnrecoverableError exn
  | AttributeError string
  | NameError string
  | ValueError
  | IndexError
  | KeyError
  | TypeError
  | UnicodeDecodeError

section \<open>Path functions of the standard library (posixpath)\<close>

definition sep :: char where
  "sep = CHR ''/''"

text \<open>\<open>str.startswith\<close> and \<open>str.endswith\<close> are \<^const>\<open>prefix\<close> and \<^const>\<open>suffix\<close>.\<close>

definition rstrip_sep :: "string \<Rightarrow> string" where
  "rstrip_sep s = rev (dropWhile (\<lambda>c. c = sep) (rev s))"

text \<open>
  \<open>os.path.split(p)\<close>: with \<open>i = p.rfind('/') + 1\<close> the head is \<open>p[:i]\<close> and the tail
  \<open>p[i:]\<close>; trailing separators are stripped from a head that is not made of separators only.
\<close>

definition path_split :: "string \<Rightarrow> string \<times> string" where
  "path_split p =
     (let head = rev (dropWhile (\<lambda>c. c \<noteq> sep) (rev p));
          tail = rev (takeWhile (\<lambda>c. c \<noteq> sep) (rev p))
      in (if head \<noteq> [] \<and> head \<noteq> replicate (length head) sep then rstrip_sep head else head,
          tail))"

definition path_basename :: "string \<Rightarrow> string" where
  "path_basename p = rev (takeWhile (\<lambda>c. c \<noteq> sep) (rev p))"

text \<open>\<open>os.path.join(a, b)\<close> with two arguments.\<close>

definition path_join :: "string \<Rightarrow> string \<Rightarrow> string" where
  "path_join a b =
     (if prefix [sep] b then b
      else if a = [] \<or> suffix [sep] a then a @ b
      else a @ sep # b)"

text \<open>
  The shape of the directory part that \<open>os.path.split\<close> returns: empty, made of separators
  only, or not ending with a separator.
\<close>

definition dir_ok :: "string \<Rightarrow> bool" where
  "dir_ok d \<longleftrightarrow> d = [] \<or> d = replicate (length d) sep \<or> last d \<noteq> sep"

text \<open>
  Modelled from the spec: the helper \<open>join\<close> of \<open>escale.base.essential\<close> is not part of the
  sources at hand. The on-relay layout puts the markers of \<open>dir/F\<close> at \<open>dir/{prefix}F{suffix}\<close>,
  so \<open>join\<close> is taken to join a directory and a name as \<open>os.path.join\<close> does.
\<close>

definition essential_join :: "string \<Rightarrow> string \<Rightarrow> string" where
  "essential_join dirname basename = path_join dirname basename"

text \<open>\<open>s[a:]\<close> (the end is \<open>None\<close>) and \<open>s[a:-b]\<close> with \<open>0 < b\<close> (the end is \<open>Some b\<close>).\<close>

definition py_slice :: "string \<Rightarrow> nat \<Rightarrow> nat option \<Rightarrow> string" where
  "py_slice s a e =
     (case e of None \<Rightarrow> drop a s | Some b \<Rightarrow> drop a (take (length s - b) s))"

section \<open>The relay object (relay.py)\<close>

text \<open>
  The attributes of a \<open>Relay\<close> instance that the modelled methods read. A leading underscore
  of the source is written as the prefix \<open>u_\<close>. \<open>client\<close> may be \<open>None\<close>; \<open>lock_timeout\<close> is
  a number, \<open>False\<close> being \<open>0\<close>.
\<close>

record relay =
  client :: "string option"
  u_placeholder_prefix :: string
  u_placeholder_suffix :: string
  u_lock_prefix :: string
  u_lock_suffix :: string
  lock_timeout :: int
  u_message_hash :: "(string \<Rightarrow> string) option"
  u_message_prefix :: string
  u_message_suffix :: string

datatype timeout_arg = TBool bool | TInt int

text \<open>
  \<open>Relay.__init__\<close>. With \<open>timestamped_messages\<close> the constructor assigns the name
  \<open>message_hash\<close>, which is bound nowhere (the local function is \<open>hash_message\<close>).
\<close>

definition Relay_init :: "string option \<Rightarrow> timeout_arg \<Rightarrow> bool \<Rightarrow> exn + relay" where
  "Relay_init cl timeout timestamped_messages =
     (if timestamped_messages then Inl (NameError ''message_hash'')
      else Inr \<lparr> client = cl,
                 u_placeholder_prefix = ''.'',
                 u_placeholder_suffix = ''.placeholder'',
                 u_lock_prefix = ''.'',
                 u_lock_suffix = ''.lock'',
                 lock_timeout = (case timeout of
                                   TBool b \<Rightarrow> if b then 3600 else 0
                                 | TInt n \<Rightarrow> n),
                 u_message_hash = None,
                 u_message_prefix = ''.'',
                 u_message_suffix = ''.message'' \<rparr>)"

subsection \<open>Marker codec\<close>

definition with_path :: "string \<Rightarrow> (string \<Rightarrow> string) \<Rightarrow> string" where
  "with_path path f = (case path_split path of (dir, file) \<Rightarrow> path_join dir (f file))"

definition u_placeholder :: "relay \<Rightarrow> string \<Rightarrow> string" where
  "u_placeholder r filename = u_placeholder_prefix r @ filename @ u_placeholder_suffix r"

definition u_lock :: "relay \<Rightarrow> string \<Rightarrow> string" where
  "u_lock r filename = u_lock_prefix r @ filename @ u_lock_suffix r"

definition u_isPlaceholder :: "relay \<Rightarrow> string \<Rightarrow> bool" where
  "u_isPlaceholder r filename \<longleftrightarrow>
     prefix (u_placeholder_prefix r) filename \<and> suffix (u_placeholder_suffix r) filename"

definition u_isLock :: "relay \<Rightarrow> string \<Rightarrow> bool" where
  "u_isLock r filename \<longleftrightarrow>
     prefix (u_lock_prefix r) filename \<and> suffix (u_lock_suffix r) filename"

definition u_fromPlaceholder :: "relay \<Rightarrow> string \<Rightarrow> string" where
  "u_fromPlaceholder r filename =
     py_slice filename (length (u_placeholder_prefix r))
       (if u_placeholder_suffix r \<noteq> [] then Some (length (u_placeholder_suffix r)) else None)"

definition u_fromLock :: "relay \<Rightarrow> string \<Rightarrow> string" where
  "u_fromLock r filename =
     py_slice filename (length (u_lock_prefix r))
       (if u_lock_suffix r \<noteq> [] then Some (length (u_lock_suffix r)) else None)"

definition u_safePlaceholder :: "relay \<Rightarrow> string \<Rightarrow> string" where
  "u_safePlaceholder r filename =
     (if u_isPlaceholder r filename then filename else u_placeholder r filename)"

definition u_safeLock :: "relay \<Rightarrow> string \<Rightarrow> string" where
  "u_safeLock r filename = (if u_isLock r filename then filename else u_lock r filename)"

definition placeholder :: "relay \<Rightarrow> string \<Rightarrow> string" where
  "placeholder r path = with_path path (u_safePlaceholder r)"

definition lock :: "relay \<Rightarrow> string \<Rightarrow> string" where
  "lock r path = with_path path (u_safeLock r)"

definition isPlaceholder :: "relay \<Rightarrow> string \<Rightarrow> bool" where
  "isPlaceholder r path = u_isPlaceholder r (path_basename path)"

definition isLock :: "relay \<Rightarrow> string \<Rightarrow> bool" where
  "isLock r path = u_isLock r (path_basename path)"

definition fromPlaceholder :: "relay \<Rightarrow> string \<Rightarrow> string" where
  "fromPlaceholder r path = with_path path (u_fromPlaceholder r)"

definition fromLock :: "relay \<Rightarrow> string \<Rightarrow> string" where
  "fromLock r path = with_path path (u_fromLock r)"

definition u_isMessage :: "relay \<Rightarrow> string \<Rightarrow> bool" where
  "u_isMessage r filename \<longleftrightarrow>
     prefix (u_message_prefix r) filename \<and> suffix (u_message_suffix r) filename"

definition isMessage :: "relay \<Rightarrow> string \<Rightarrow> bool" where
  "isMessage r path = u_isMessage r (path_basename path)"

text \<open>
  \<open>_message\<close> reads the attribute \<open>self.message_hash\<close>. The instance has no attribute of
  that name: \<open>__init__\<close> assigns \<open>_message_hash\<close>, and so does \<open>__slots__\<close> list it. Reading
  it raises \<open>AttributeError\<close>.
\<close>

definition getattr_message_hash :: "relay \<Rightarrow> exn + (string \<Rightarrow> string) option" where
  "getattr_message_hash r = Inl (AttributeError ''message_hash'')"

definition u_message :: "relay \<Rightarrow> string \<Rightarrow> string \<Rightarrow> exn + string" where
  "u_message r filename filepath =
     (case getattr_message_hash r of
        Inl e \<Rightarrow> Inl e
      | Inr None \<Rightarrow> Inr (u_message_prefix r @ filename @ u_message_suffix r)
      | Inr (Some message_hash) \<Rightarrow>
          (let hash = message_hash filepath
           in if CHR ''.'' \<in> set hash then Inl ValueError
              else Inr (u_message_prefix r @ filename @ ''.'' @ hash @ u_message_suffix r)))"

definition u_safeMessage :: "relay \<Rightarrow> string \<Rightarrow> string \<Rightarrow> exn + string" where
  "u_safeMessage r filename filepath =
     (if u_isMessage r filename then Inr filename else u_message r filename filepath)"

definition message :: "relay \<Rightarrow> string \<Rightarrow> exn + string" where
  "message r path =
     (case path_split path of
        (dir, file) \<Rightarrow>
          (case u_safeMessage r file path of
             Inl e \<Rightarrow> Inl e
           | Inr m \<Rightarrow> Inr (path_join dir m)))"

text \<open>
  \<open>message[::-1].split('.', 1)[1][::-1]\<close> is the part of \<open>message\<close> before its last dot,
  and raises \<open>IndexError\<close> when \<open>message\<close> has no dot.
\<close>

definition u_fromMessage :: "relay \<Rightarrow> string \<Rightarrow> exn + string" where
  "u_fromMessage r filename =
     (let message = py_slice filename (length (u_message_prefix r))
                      (if u_message_suffix r \<noteq> [] then Some (length (u_message_suffix r))
                       else None)
      in if u_message_hash r \<noteq> None
         then (if CHR ''.'' \<in> set message
               then Inr (rev (tl (dropWhile (\<lambda>c. c \<noteq> CHR ''.'') (rev message))))
               else Inl IndexError)
         else Inr message)"

definition fromMessage :: "relay \<Rightarrow> string \<Rightarrow> exn + string" where
  "fromMessage r path =
     (case path_split path of
        (dir, file) \<Rightarrow>
          (case u_fromMessage r file of
             Inl e \<Rightarrow> Inl e
           | Inr m \<Rightarrow> Inr (path_join dir m)))"

definition u_isSpecial :: "relay \<Rightarrow> string \<Rightarrow> bool" where
  "u_isSpecial r filename \<longleftrightarrow>
     u_isLock r filename \<or> u_isPlaceholder r filename \<or> u_isMessage r filename"

definition isSpecial :: "relay \<Rightarrow> string \<Rightarrow> bool" where
  "isSpecial r path = u_isSpecial r (path_basename path)"

subsection \<open>The wrapper \<open>_safe\<close>\<close>

text \<open>
  \<open>_safe(callback, *args)\<close>: the callback is a function of its arguments that returns or
  raises. An \<open>EnvironmentError\<close> always has the attribute \<open>errno\<close>, so the inner
  \<open>except AttributeError\<close> never runs; \<open>UnrecoverableError\<close> is not an \<open>EnvironmentError\<close> and
  leaves the handler.
\<close>

definition u_safe :: "('a \<Rightarrow> exn + 'b) \<Rightarrow> 'a \<Rightarrow> exn + 'b" where
  "u_safe callback args =
     (case callback args of
        Inr v \<Rightarrow> Inr v
      | Inl e \<Rightarrow>
          (case e of
             EnvironmentError errno \<Rightarrow>
               if errno = Some 24 then Inl (UnrecoverableError e) else Inl e
           | _ \<Rightarrow> Inl e))"

subsection \<open>Listings\<close>

text \<open>
  The loop of \<open>listReady\<close> over the listing \<open>ls\<close> that \<open>_list\<close> returned; \<open>rest\<close> is what
  is left of the iteration and \<open>ready\<close> the accumulated result.
\<close>

fun listReady_loop :: "relay \<Rightarrow> string list \<Rightarrow> string list \<Rightarrow> string list \<Rightarrow> string list" where
  "listReady_loop r ls [] ready = ready"
| "listReady_loop r ls (file # rest) ready =
     (case path_split file of
        (filedir, filename) \<Rightarrow>
          (let lock = essential_join filedir (u_lock r filename)
           in if \<not> u_isLock r filename \<and> \<not> u_isPlaceholder r filename \<and> lock \<notin> set ls
              then listReady_loop r ls rest (ready @ [file])
              else listReady_loop r ls rest ready))"

text \<open>\<open>u_list\<close> is the transport's \<open>_list\<close>, applied to \<open>(remote_dir, recursive)\<close>.\<close>

definition listReady ::
  "relay \<Rightarrow> (string \<times> bool \<Rightarrow> exn + string list) \<Rightarrow> string \<Rightarrow> bool \<Rightarrow> exn + string list" where
  "listReady r u_list remote_dir recursive =
     (case u_safe u_list (remote_dir, recursive) of
        Inl e \<Rightarrow> Inl e
      | Inr ls \<Rightarrow> Inr (listReady_loop r ls ls []))"

text \<open>\<open>Relay.exists\<close>, \<open>Relay.hasPlaceholder\<close>, \<open>Relay.hasLock\<close> and their \<open>IRelay\<close> versions.\<close>

definition exists_remote ::
  "(string \<times> bool \<Rightarrow> exn + string list) \<Rightarrow> string \<Rightarrow> string \<Rightarrow> exn + bool" where
  "exists_remote u_list filename dirname =
     (case (if dirname = [] then path_split filename else (dirname, filename)) of
        (dirname', filename') \<Rightarrow>
          (case u_safe u_list (dirname', False) of
             Inl e \<Rightarrow> Inl e
           | Inr ls \<Rightarrow> Inr (filename' \<in> set ls)))"

definition Relay_hasPlaceholder ::
  "relay \<Rightarrow> (string \<times> bool \<Rightarrow> exn + string list) \<Rightarrow> string \<Rightarrow> exn + bool" where
  "Relay_hasPlaceholder r u_list remote_file =
     (case path_split remote_file of
        (dirname, filename) \<Rightarrow> exists_remote u_list (u_placeholder r filename) dirname)"

definition Relay_hasLock ::
  "relay \<Rightarrow> (string \<times> bool \<Rightarrow> exn + string list) \<Rightarrow> string \<Rightarrow> exn + bool" where
  "Relay_hasLock r u_list remote_file =
     (case path_split remote_file of
        (dirname, filename) \<Rightarrow> exists_remote u_list (u_lock r filename) dirname)"

definition listPlaceholders ::
  "relay \<Rightarrow> (string \<times> bool \<Rightarrow> exn + string list) \<Rightarrow> string \<Rightarrow> exn + string list" where
  "listPlaceholders r u_list remote_dir =
     (case u_list (remote_dir, False) of
        Inl e \<Rightarrow> Inl e
      | Inr ls \<Rightarrow> Inr (filter (isPlaceholder r) ls))"

definition listLocks ::
  "relay \<Rightarrow> (string \<times> bool \<Rightarrow> exn + string list) \<Rightarrow> string \<Rightarrow> exn + string list" where
  "listLocks r u_list remote_dir =
     (case u_list (remote_dir, False) of
        Inl e \<Rightarrow> Inl e
      | Inr ls \<Rightarrow> Inr (filter (isLock r) ls))"

definition IRelay_hasPlaceholder ::
  "relay \<Rightarrow> (string \<times> bool \<Rightarrow> exn + string list) \<Rightarrow> string \<Rightarrow> exn + bool" where
  "IRelay_hasPlaceholder r u_list remote_file =
     (case path_split remote_file of
        (remote_dir, filename) \<Rightarrow>
          (case listPlaceholders r u_list remote_dir of
             Inl e \<Rightarrow> Inl e
           | Inr ps \<Rightarrow> Inr (u_placeholder r filename \<in> set ps)))"

definition IRelay_hasLock ::
  "relay \<Rightarrow> (string \<times> bool \<Rightarrow> exn + string list) \<Rightarrow> string \<Rightarrow> exn + bool" where
  "IRelay_hasLock r u_list remote_file =
     (case path_split remote_file of
        (remote_dir, filename) \<Rightarrow>
          (case listLocks r u_list remote_dir of
             Inl e \<Rightarrow> Inl e
           | Inr ls \<Rightarrow> Inr (u_lock r filename \<in> set ls)))"

section \<open>The state the relay acts on\<close>

text \<open>
  Local files are addressed by \<open>Local path\<close>, or by \<open>Tmp n\<close> for the \<open>n\<close>-th name that
  \<open>tempfile.mkstemp\<close> handed out. The relay store is an association list from blob paths to
  contents. A function that acts on the state returns \<open>exn + result \<times> world\<close>: an uncaught
  exception ends the call, and no claim treated here looks at the state it leaves behind.
  Two fields describe the interpreter: \<open>python_version\<close> is \<open>sys.version_info[0]\<close> (the
  sources run under Python 2 and 3), and \<open>decodes\<close> tells which byte strings the preferred
  encoding of the locale decodes.
\<close>

datatype lpath = Tmp nat | Local string

record world =
  remote :: "(string \<times> string) list"
  local_files :: "lpath \<rightharpoonup> string"
  next_tmp :: nat
  u_temporary_files :: "lpath list"
  python_version :: nat
  decodes :: "string \<Rightarrow> bool"

definition newline :: char where
  "newline = CHR 0x0A"

definition mkstemp :: "world \<Rightarrow> exn + lpath \<times> world" where
  "mkstemp w =
     Inr (Tmp (next_tmp w),
          w\<lparr> local_files := (local_files w)(Tmp (next_tmp w) \<mapsto> []),
             next_tmp := Suc (next_tmp w) \<rparr>)"

definition os_unlink :: "lpath \<Rightarrow> world \<Rightarrow> exn + world" where
  "os_unlink f w =
     (case local_files w f of
        None \<Rightarrow> Inl (EnvironmentError (Some 2))
      | Some _ \<Rightarrow> Inr (w\<lparr> local_files := (local_files w)(f := None) \<rparr>))"

definition newTemporaryFile :: "world \<Rightarrow> exn + lpath \<times> world" where
  "newTemporaryFile w =
     (case mkstemp w of
        Inl e \<Rightarrow> Inl e
      | Inr (name, w') \<Rightarrow>
          Inr (name, w'\<lparr> u_temporary_files := u_temporary_files w' @ [name] \<rparr>))"

definition delTemporaryFile :: "lpath \<Rightarrow> world \<Rightarrow> world" where
  "delTemporaryFile f w =
     (let w1 = (case os_unlink f w of Inl e \<Rightarrow> w | Inr w' \<Rightarrow> w')
      in w1\<lparr> u_temporary_files := remove1 f (u_temporary_files w1) \<rparr>)"

subsection \<open>The transport\<close>

text \<open>
  Modelled from the spec: \<open>_list\<close>, \<open>_push\<close>, \<open>_get\<close> and \<open>_pop\<close> are abstract in \<open>Relay\<close>
  and implemented by the transports, which are not part of the sources at hand. The blob
  store contract is: \<open>list(dir, recursive)\<close> gives the names in \<open>dir\<close>, \<open>push\<close> writes a blob,
  \<open>get\<close> reads one, \<open>pop\<close> is get followed by delete, and getting or deleting a missing blob
  fails with a not-found error (\<open>errno\<close> 2). A listing gives names relative to \<open>dir\<close>.
\<close>

definition transport_list :: "world \<Rightarrow> string \<times> bool \<Rightarrow> exn + string list" where
  "transport_list w args =
     (case args of
        (remote_dir, recursive) \<Rightarrow>
          Inr (if recursive
               then map (\<lambda>p. if remote_dir = [] then p else drop (Suc (length remote_dir)) p)
                      (filter (\<lambda>p. remote_dir = [] \<or> prefix (remote_dir @ [sep]) p)
                         (map fst (remote w)))
               else map (\<lambda>p. snd (path_split p))
                      (filter (\<lambda>p. fst (path_split p) = remote_dir) (map fst (remote w)))))"

definition transport_get :: "string \<Rightarrow> lpath \<Rightarrow> world \<Rightarrow> exn + world" where
  "transport_get remote_file local_dest w =
     (case map_of (remote w) remote_file of
        None \<Rightarrow> Inl (EnvironmentError (Some 2))
      | Some c \<Rightarrow> Inr (w\<lparr> local_files := (local_files w)(local_dest \<mapsto> c) \<rparr>))"

definition transport_push :: "lpath \<Rightarrow> string \<Rightarrow> world \<Rightarrow> exn + world" where
  "transport_push local_file remote_dest w =
     (case local_files w local_file of
        None \<Rightarrow> Inl (EnvironmentError (Some 2))
      | Some c \<Rightarrow> Inr (w\<lparr> remote := AList.update remote_dest c (remote w) \<rparr>))"

definition transport_pop :: "string \<Rightarrow> lpath \<Rightarrow> world \<Rightarrow> exn + world" where
  "transport_pop remote_file local_dest w =
     (case transport_get remote_file local_dest w of
        Inl e \<Rightarrow> Inl e
      | Inr w' \<Rightarrow> Inr (w'\<lparr> remote := AList.delete remote_file (remote w') \<rparr>))"

subsection \<open>Writing and deleting blobs\<close>

datatype content = NoContent | Text string | Lines "string list"

fun write_lines :: "string list \<Rightarrow> string" where
  "write_lines [] = []"
| "write_lines [line] = line"
| "write_lines (line # rest) = line @ newline # write_lines rest"

definition written :: "content \<Rightarrow> string" where
  "written c = (case c of NoContent \<Rightarrow> [] | Text s \<Rightarrow> s | Lines ls \<Rightarrow> write_lines ls)"

text \<open>
  \<open>try: ... finally: os.unlink(f)\<close>: the temporary file is removed whether the body raised or
  not; \<open>w_before\<close> is the state in which a failed body left the local files.
\<close>

definition finally_unlink :: "lpath \<Rightarrow> world \<Rightarrow> exn + world \<Rightarrow> exn + world" where
  "finally_unlink f w_before body =
     (case body of
        Inl e \<Rightarrow> (case os_unlink f w_before of Inl e' \<Rightarrow> Inl e' | Inr _ \<Rightarrow> Inl e)
      | Inr w' \<Rightarrow> os_unlink f w')"

definition touch :: "string \<Rightarrow> content \<Rightarrow> world \<Rightarrow> exn + world" where
  "touch remote_file c w =
     (case u_safe mkstemp w of
        Inl e \<Rightarrow> Inl e
      | Inr (local_file, w1) \<Rightarrow>
          (let w2 = w1\<lparr> local_files := (local_files w1)(local_file \<mapsto> written c) \<rparr>
           in finally_unlink local_file w2 (u_safe (transport_push local_file remote_file) w2)))"

text \<open>\<open>unlink\<close> of a single path (no caller modelled here passes a list).\<close>

definition unlink :: "string \<Rightarrow> world \<Rightarrow> exn + world" where
  "unlink remote_file w =
     (case mkstemp w of
        Inl e \<Rightarrow> Inl e
      | Inr (trash, w1) \<Rightarrow>
          finally_unlink trash w1 (u_safe (transport_pop remote_file trash) w1))"

subsection \<open>Locks\<close>

text \<open>
  Modelled from the spec: \<open>LockInfo\<close>, its \<open>repr\<close> and \<open>parse_lock_file\<close> live in
  \<open>escale.relay.info\<close>, which is not part of the sources at hand. A \<open>LockInfo\<close> has an owner,
  a mode and a target, each possibly \<open>None\<close>. The two functions are parameters of the
  model; \<open>parse_lock_file\<close> is applied to the content of the local copy and to the target.
\<close>

record lock_info =
  owner :: "string option"
  mode :: "string option"
  target :: "string option"

definition LockInfo :: lock_info where
  "LockInfo = \<lparr> owner = None, mode = None, target = None \<rparr>"

record info_module =
  repr_LockInfo :: "lock_info \<Rightarrow> string"
  parse_lock_file :: "string \<times> string \<Rightarrow> exn + lock_info"

text \<open>Truth value of a string that may be \<open>None\<close>.\<close>

definition truthy :: "string option \<Rightarrow> bool" where
  "truthy s = (case s of None \<Rightarrow> False | Some x \<Rightarrow> x \<noteq> [])"

definition is_Unrecoverable :: "exn \<Rightarrow> bool" where
  "is_Unrecoverable e = (case e of UnrecoverableError _ \<Rightarrow> True | _ \<Rightarrow> False)"

definition getLockInfo :: "info_module \<Rightarrow> relay \<Rightarrow> string \<Rightarrow> world \<Rightarrow> exn + lock_info \<times> world" where
  "getLockInfo info r remote_file w =
     (let remote_lock = lock r remote_file
      in case u_safe mkstemp w of
           Inl e \<Rightarrow> Inl e
         | Inr (local_lock, w1) \<Rightarrow>
             (case u_safe (transport_get remote_lock local_lock) w1 of
                Inl e \<Rightarrow>
                  (case os_unlink local_lock w1 of
                     Inl e' \<Rightarrow> Inl e'
                   | Inr w2 \<Rightarrow> if is_Unrecoverable e then Inl e else Inr (LockInfo, w2))
              | Inr w2 \<Rightarrow>
                  (case u_safe (parse_lock_file info)
                          (case local_files w2 local_lock of None \<Rightarrow> [] | Some c \<Rightarrow> c,
                           remote_file) of
                     Inl e \<Rightarrow> (case os_unlink local_lock w2 of Inl e' \<Rightarrow> Inl e' | Inr _ \<Rightarrow> Inl e)
                   | Inr i \<Rightarrow>
                       (case os_unlink local_lock w2 of
                          Inl e' \<Rightarrow> Inl e'
                        | Inr w3 \<Rightarrow> Inr (i, w3)))))"

text \<open>
  What \<open>getLockInfo\<close> reads for a target from a relay store: the parsed lock blob, or the
  empty \<open>LockInfo()\<close> when the blob cannot be downloaded.
\<close>

definition lock_info_at ::
  "info_module \<Rightarrow> relay \<Rightarrow> (string \<times> string) list \<Rightarrow> string \<Rightarrow> exn + lock_info" where
  "lock_info_at info r store remote_file =
     (case map_of store (lock r remote_file) of
        None \<Rightarrow> Inr LockInfo
      | Some c \<Rightarrow> u_safe (parse_lock_file info) (c, remote_file))"

text \<open>
  The modification time of a listing entry: absent, a number of seconds since the epoch, or
  a \<open>time.struct_time\<close>, given here by the value \<open>calendar.timegm\<close> converts it to.
\<close>

datatype mtime = NoTime | Epoch real | StructTime real

definition mtime_truthy :: "mtime \<Rightarrow> bool" where
  "mtime_truthy m = (case m of NoTime \<Rightarrow> False | Epoch t \<Rightarrow> t \<noteq> 0 | StructTime _ \<Rightarrow> True)"

definition mtime_seconds :: "mtime \<Rightarrow> real" where
  "mtime_seconds m = (case m of NoTime \<Rightarrow> 0 | Epoch t \<Rightarrow> t | StructTime t \<Rightarrow> t)"

text \<open>
  The loop of \<open>listCorrupted\<close>; \<open>now\<close> is what \<open>time.time()\<close> returns, taken to be the same
  throughout one call.
\<close>

fun listCorrupted_loop ::
  "info_module \<Rightarrow> relay \<Rightarrow> real \<Rightarrow> string \<Rightarrow> (string \<times> mtime) list \<Rightarrow> lock_info list \<Rightarrow> world
     \<Rightarrow> exn + lock_info list \<times> world" where
  "listCorrupted_loop info r now remote_dir [] locks w = Inr (locks, w)"
| "listCorrupted_loop info r now remote_dir ((file, mt) # rest) locks w =
     (if isLock r file
      then (case getLockInfo info r (essential_join remote_dir (fromLock r file)) w of
              Inl e \<Rightarrow> Inl e
            | Inr (lck, w') \<Rightarrow>
                if truthy (owner lck)
                then (if owner lck = client r
                      then listCorrupted_loop info r now remote_dir rest (locks @ [lck]) w'
                      else listCorrupted_loop info r now remote_dir rest locks w')
                else if mtime_truthy mt \<and> lock_timeout r \<noteq> 0
                then (if real_of_int (lock_timeout r) < now - mtime_seconds mt
                      then listCorrupted_loop info r now remote_dir rest (locks @ [lck]) w'
                      else listCorrupted_loop info r now remote_dir rest locks w')
                else listCorrupted_loop info r now remote_dir rest locks w')
      else listCorrupted_loop info r now remote_dir rest locks w)"

definition listCorrupted ::
  "info_module \<Rightarrow> relay \<Rightarrow> real \<Rightarrow> (string \<times> bool \<Rightarrow> exn + (string \<times> mtime) list) \<Rightarrow> string \<Rightarrow> bool
     \<Rightarrow> world \<Rightarrow> exn + lock_info list \<times> world" where
  "listCorrupted info r now u_list_mtime remote_dir recursive w =
     (if \<not> (truthy (client r) \<or> lock_timeout r \<noteq> 0) then Inr ([], w)
      else case u_safe u_list_mtime (remote_dir, recursive) of
             Inl e \<Rightarrow> Inl e
           | Inr ls \<Rightarrow> listCorrupted_loop info r now remote_dir ls [] w)"

text \<open>
  \<open>acquireLock\<close> with \<open>blocking\<close> polls \<open>hasLock\<close> until the lock is gone. Nothing else acts on
  the store while this client sleeps, so the poll either ends at once or never: not
  returning is the value \<open>None\<close>.
\<close>

partial_function (option) wait_for_lock :: "relay \<Rightarrow> world \<Rightarrow> string \<Rightarrow> (exn + unit) option" where
  "wait_for_lock r w remote_file =
     (case Relay_hasLock r (transport_list w) remote_file of
        Inl e \<Rightarrow> Some (Inl e)
      | Inr locked \<Rightarrow> if locked then wait_for_lock r w remote_file else Some (Inr ()))"

definition write_lock :: "info_module \<Rightarrow> relay \<Rightarrow> string \<Rightarrow> string \<Rightarrow> world \<Rightarrow> exn + bool \<times> world" where
  "write_lock info r remote_file md w =
     (let lock_info = \<lparr> owner = client r, mode = Some md, target = None \<rparr>
      in case touch (lock r remote_file) (Text (repr_LockInfo info lock_info)) w of
           Inl e \<Rightarrow> Inl e
         | Inr w' \<Rightarrow> Inr (True, w'))"

definition acquireLock ::
  "info_module \<Rightarrow> relay \<Rightarrow> string \<Rightarrow> string \<Rightarrow> bool \<Rightarrow> world \<Rightarrow> (exn + bool \<times> world) option" where
  "acquireLock info r remote_file md blocking w =
     (if blocking
      then (case wait_for_lock r w remote_file of
              None \<Rightarrow> None
            | Some (Inl e) \<Rightarrow> Some (Inl e)
            | Some (Inr _) \<Rightarrow> Some (write_lock info r remote_file md w))
      else (case Relay_hasLock r (transport_list w) remote_file of
              Inl e \<Rightarrow> Some (Inl e)
            | Inr locked \<Rightarrow>
                if locked then Some (Inr (False, w))
                else Some (write_lock info r remote_file md w)))"

definition releaseLock :: "relay \<Rightarrow> string \<Rightarrow> world \<Rightarrow> exn + world" where
  "releaseLock r remote_file w = unlink (lock r remote_file) w"

subsection \<open>Placeholders, \<open>markAsRead\<close> and \<open>pop\<close>\<close>

definition updatePlaceholder :: "relay \<Rightarrow> string \<Rightarrow> content \<Rightarrow> world \<Rightarrow> exn + world" where
  "updatePlaceholder r remote_file last_modified w =
     touch (placeholder r remote_file) last_modified w"

text \<open>\<open>'{}'.format(self.client)\<close>.\<close>

definition format_client :: "string option \<Rightarrow> string" where
  "format_client c = (case c of None \<Rightarrow> ''None'' | Some s \<Rightarrow> s)"

text \<open>\<open>open(f, 'a').write(s)\<close>: the file is created when it is missing.\<close>

definition append_file :: "lpath \<Rightarrow> string \<Rightarrow> world \<Rightarrow> exn + world" where
  "append_file f s w =
     Inr (w\<lparr> local_files :=
              (local_files w)(f \<mapsto> (case local_files w f of None \<Rightarrow> [] | Some c \<Rightarrow> c) @ s) \<rparr>)"

text \<open>
  \<open>markAsRead(remote_file, local_placeholder=None)\<close>. The statement that appends the client
  stands inside \<open>if get:\<close>, as do the download and the new temporary file.
\<close>

definition markAsRead :: "relay \<Rightarrow> string \<Rightarrow> lpath option \<Rightarrow> world \<Rightarrow> exn + world" where
  "markAsRead r remote_file local_placeholder w =
     (let remote_placeholder = placeholder r remote_file;
          get = (local_placeholder = None \<or> local_placeholder = Some (Local []))
      in case (if get
               then (case newTemporaryFile w of
                       Inl e \<Rightarrow> Inl e
                     | Inr (lp, w1) \<Rightarrow>
                         (case u_safe (transport_get remote_placeholder lp) w1 of
                            Inl e \<Rightarrow> Inl e
                          | Inr w2 \<Rightarrow>
                              (case u_safe (append_file lp (newline # format_client (client r))) w2 of
                                 Inl e \<Rightarrow> Inl e
                               | Inr w3 \<Rightarrow> Inr (lp, w3))))
               else (case local_placeholder of
                       None \<Rightarrow> Inr (Local [], w)
                     | Some lp \<Rightarrow> Inr (lp, w))) of
           Inl e \<Rightarrow> Inl e
         | Inr (lp, w3) \<Rightarrow>
             (case u_safe (transport_push lp remote_placeholder) w3 of
                Inl e \<Rightarrow> Inl e
              | Inr w4 \<Rightarrow> Inr (if get then delTemporaryFile lp w4 else w4)))"

text \<open>
  Splitting a text at its newline characters: the lines, each with its newline; a last
  line without a newline is kept when it is not empty.
\<close>

fun lines_from :: "string \<Rightarrow> string \<Rightarrow> string list" where
  "lines_from [] line = (if line = [] then [] else [line])"
| "lines_from (c # cs) line =
     (if c = newline then (line @ [c]) # lines_from cs []
      else lines_from cs (line @ [c]))"

definition split_lines :: "string \<Rightarrow> string list" where
  "split_lines s = lines_from s []"

text \<open>
  Universal newlines, as Python 3 reads a file opened with mode \<open>'r'\<close>: a carriage return
  followed by a newline, and a carriage return alone, are each read as one newline.
\<close>

definition carriage_return :: char where
  "carriage_return = CHR 0x0D"

fun universal_newlines :: "string \<Rightarrow> string" where
  "universal_newlines [] = []"
| "universal_newlines [c] = [if c = carriage_return then newline else c]"
| "universal_newlines (c # c' # cs) =
     (if c = carriage_return
      then (if c' = newline then newline # universal_newlines cs
            else newline # universal_newlines (c' # cs))
      else c # universal_newlines (c' # cs))"

text \<open>
  \<open>open(f, 'r').readlines()\<close> on a file of content \<open>c\<close>. Python 2 splits the bytes at
  newlines and cannot fail. Python 3 decodes the bytes with the preferred encoding of the
  locale, raising \<open>UnicodeDecodeError\<close> on bytes it does not decode, applies universal
  newlines and splits at newlines. The encoding is taken to keep the bytes below 128 as
  they are (as UTF-8 and Latin-1 do), so that the line ends of the text are those of the
  bytes; a line is given here by its bytes.
\<close>

definition text_readlines :: "nat \<Rightarrow> (string \<Rightarrow> bool) \<Rightarrow> string \<Rightarrow> exn + string list" where
  "text_readlines version decodable c =
     (if version = 2 then Inr (split_lines c)
      else if decodable c then Inr (split_lines (universal_newlines c))
      else Inl UnicodeDecodeError)"

text \<open>
  The body of \<open>pop\<close> once the lock is held. \<open>placeholder\<close> is the argument of that name
  (\<open>True\<close> is 1 and \<open>False\<close> is 0), here \<open>pullers\<close>; \<open>kwargs\<close> holds \<open>local_placeholder\<close> when
  the caller passed it. The first step gives \<open>let\<close>, \<open>has_placeholder\<close> and the keyword
  arguments for \<open>markAsRead\<close>.
\<close>

definition pop_count_reads ::
  "relay \<Rightarrow> string \<Rightarrow> int \<Rightarrow> lpath option \<Rightarrow> world \<Rightarrow> exn + (bool \<times> bool \<times> lpath option) \<times> world" where
  "pop_count_reads r remote_file pullers kwargs w =
     (if pullers \<noteq> 0
      then (case Relay_hasPlaceholder r (transport_list w) remote_file of
              Inl e \<Rightarrow> Inl e
            | Inr has_placeholder \<Rightarrow>
                if has_placeholder \<and> 1 < pullers
                then (let remote_placeholder = placeholder r remote_file
                      in case newTemporaryFile w of
                           Inl e \<Rightarrow> Inl e
                         | Inr (local_placeholder, w1) \<Rightarrow>
                             (case u_safe (transport_get remote_placeholder local_placeholder) w1 of
                                Inl e \<Rightarrow> Inl e
                              | Inr w2 \<Rightarrow>
                                  (case local_files w2 local_placeholder of
                                     None \<Rightarrow> Inl (EnvironmentError (Some 2))
                                   | Some c \<Rightarrow>
                                       (case text_readlines (python_version w2) (decodes w2) c of
                                          Inl e \<Rightarrow> Inl e
                                        | Inr lines \<Rightarrow>
                                            (let nreads = int (length lines) - 1
                                             in Inr ((nreads < pullers - 1, has_placeholder,
                                                      Some local_placeholder), w2))))))
                else Inr ((False, has_placeholder, kwargs), w))
      else Inr ((False, False, kwargs), w))"

definition pop_locked ::
  "relay \<Rightarrow> string \<Rightarrow> string \<Rightarrow> int \<Rightarrow> lpath option \<Rightarrow> world \<Rightarrow> exn + bool \<times> world" where
  "pop_locked r remote_file local_dest pullers kwargs w =
     (case pop_count_reads r remote_file pullers kwargs w of
        Inl e \<Rightarrow> Inl e
      | Inr ((let_, has_placeholder, kwargs'), w1) \<Rightarrow>
          (case (if let_ then u_safe (transport_get remote_file (Local local_dest)) w1
                 else u_safe (transport_pop remote_file (Local local_dest)) w1) of
             Inl e \<Rightarrow> Inl e
           | Inr w2 \<Rightarrow>
               (case (if pullers \<noteq> 0
                      then (if has_placeholder
                            then (case markAsRead r remote_file kwargs' w2 of
                                    Inl e \<Rightarrow> Inl e
                                  | Inr w3 \<Rightarrow>
                                      if 1 < pullers
                                      then (case kwargs' of
                                              None \<Rightarrow> Inl (NameError ''local_placeholder'')
                                            | Some lp \<Rightarrow> Inr (delTemporaryFile lp w3))
                                      else Inr w3)
                            else updatePlaceholder r remote_file NoContent w2)
                      else Inr w2) of
                  Inl e \<Rightarrow> Inl e
                | Inr w4 \<Rightarrow>
                    (case releaseLock r remote_file w4 of
                       Inl e \<Rightarrow> Inl e
                     | Inr w5 \<Rightarrow> Inr (True, w5)))))"

definition pop ::
  "info_module \<Rightarrow> relay \<Rightarrow> string \<Rightarrow> string \<Rightarrow> int \<Rightarrow> bool \<Rightarrow> lpath option \<Rightarrow> world
     \<Rightarrow> (exn + bool \<times> world) option" where
  "pop info r remote_file local_dest pullers blocking kwargs w =
     (case acquireLock info r remote_file ''r'' blocking w of
        None \<Rightarrow> None
      | Some (Inl e) \<Rightarrow> Some (Inl e)
      | Some (Inr (acquired, w1)) \<Rightarrow>
          if \<not> acquired then Some (Inr (False, w1))
          else Some (pop_locked r remote_file local_dest pullers kwargs w1))"

section \<open>The access-attribute store (access.py)\<close>

text \<open>
  \<open>AccessAttributes\<close> compares byte strings with \<open>is\<close>, which is identity of objects and not
  equality of contents. So a byte string is modelled with its origin: the object that one
  of the attributes \<open>_u\<close>, \<open>_t\<close>, \<open>_f\<close>, \<open>_undefined\<close> holds since \<open>__init__\<close>, or an object
  that an operation built (a value read from the table, a slice, the result of \<open>join\<close>).
  \<open>bytes.join\<close> on a tuple of two items allocates its result, and the result has two bytes,
  for which the interpreter keeps no shared object: it is a new object.
\<close>

datatype origin = Attr_u | Attr_t | Attr_f | Attr_undefined | Built

type_synonym bytes_obj = "origin \<times> string"

text \<open>
  \<open>a is b\<close> where \<open>b\<close> is held by an attribute: true only when \<open>a\<close> is that very object.
\<close>

definition py_is :: "bytes_obj \<Rightarrow> bytes_obj \<Rightarrow> bool" where
  "py_is a b \<longleftrightarrow> fst a = fst b \<and> fst a \<noteq> Built"

record AccessAttributes =
  location :: "string option"

definition attr_r :: nat where "attr_r = 0"
definition attr_w :: nat where "attr_w = 1"
definition sym_u :: bytes_obj where "sym_u = (Attr_u, '' '')"
definition sym_t :: bytes_obj where "sym_t = (Attr_t, ''+'')"
definition sym_f :: bytes_obj where "sym_f = (Attr_f, ''-'')"
definition sym_undefined :: bytes_obj where "sym_undefined = (Attr_undefined, ''  '')"

text \<open>
  \<open>_encode\<close>: the permission is \<open>True\<close>, \<open>False\<close> or \<open>None\<close> (the callers pass nothing else, so
  the \<open>ValueError\<close> branch is excluded by the type).
\<close>

definition u_encode :: "bool option \<Rightarrow> bytes_obj" where
  "u_encode a = (case a of Some False \<Rightarrow> sym_f | Some True \<Rightarrow> sym_t | None \<Rightarrow> sym_u)"

fun join_contents :: "string \<Rightarrow> string list \<Rightarrow> string" where
  "join_contents s [] = []"
| "join_contents s [x] = x"
| "join_contents s (x # xs) = x @ s @ join_contents s xs"

text \<open>\<open>s.join((a, b))\<close> and the slices \<open>a[:i]\<close>, \<open>a[i:]\<close>.\<close>

definition bytes_join :: "bytes_obj \<Rightarrow> bytes_obj \<times> bytes_obj \<Rightarrow> bytes_obj" where
  "bytes_join s ab = (case ab of (a, b) \<Rightarrow> (Built, join_contents (snd s) [snd a, snd b]))"

definition slice_to :: "bytes_obj \<Rightarrow> nat \<Rightarrow> bytes_obj" where
  "slice_to a i = (Built, take i (snd a))"

definition slice_from :: "bytes_obj \<Rightarrow> nat \<Rightarrow> bytes_obj" where
  "slice_from a i = (Built, drop i (snd a))"

text \<open>
  The \<open>dbm\<close> table at \<open>location\<close> maps keys to byte strings. \<open>TableEntry.get\<close> returns the
  stored value, a new object, or the entry's default, which may be \<open>None\<close>.
\<close>

type_synonym table = "string \<rightharpoonup> string"

definition TableEntry_get :: "table \<Rightarrow> string \<Rightarrow> bytes_obj option \<Rightarrow> bytes_obj option" where
  "TableEntry_get tbl key dflt =
     (case tbl key of None \<Rightarrow> dflt | Some v \<Rightarrow> Some (Built, v))"

definition TableEntry_delete :: "table \<Rightarrow> string \<Rightarrow> (exn + unit) \<times> table" where
  "TableEntry_delete tbl key =
     (case tbl key of None \<Rightarrow> (Inl KeyError, tbl) | Some _ \<Rightarrow> (Inr (), tbl(key := None)))"

definition TableEntry_set :: "table \<Rightarrow> string \<Rightarrow> bytes_obj \<Rightarrow> (exn + unit) \<times> table" where
  "TableEntry_set tbl key v = (Inr (), tbl(key \<mapsto> snd v))"

text \<open>
  A function on the table returns its outcome and the table it leaves. \<open>_set\<close>:
  \<open>dbm.open(None, 'c')\<close> raises \<open>TypeError\<close>, and so would slicing \<open>None\<close>.
\<close>

definition AccessAttributes_set ::
  "AccessAttributes \<Rightarrow> nat \<Rightarrow> string \<Rightarrow> bool option \<Rightarrow> table \<Rightarrow> (exn + unit) \<times> table" where
  "AccessAttributes_set aa attr resource perm tbl =
     (case location aa of
        None \<Rightarrow> (Inl TypeError, tbl)
      | Some _ \<Rightarrow>
          (case TableEntry_get tbl resource (Some sym_undefined) of
             None \<Rightarrow> (Inl TypeError, tbl)
           | Some attributes \<Rightarrow>
               (let attributes' =
                      bytes_join (u_encode perm)
                        (slice_to attributes attr, slice_from attributes (attr + 1))
                in if py_is attributes' sym_undefined
                   then TableEntry_delete tbl resource
                   else TableEntry_set tbl resource attributes')))"

definition AccessAttributes_setReadability ::
  "AccessAttributes \<Rightarrow> string \<Rightarrow> bool option \<Rightarrow> table \<Rightarrow> (exn + unit) \<times> table" where
  "AccessAttributes_setReadability aa resource r tbl = AccessAttributes_set aa attr_r resource r tbl"

definition AccessAttributes_setWritability ::
  "AccessAttributes \<Rightarrow> string \<Rightarrow> bool option \<Rightarrow> table \<Rightarrow> (exn + unit) \<times> table" where
  "AccessAttributes_setWritability aa resource w tbl = AccessAttributes_set aa attr_w resource w tbl"

definition unsetReadability :: "AccessAttributes \<Rightarrow> string \<Rightarrow> table \<Rightarrow> (exn + unit) \<times> table" where
  "unsetReadability aa resource tbl = AccessAttributes_set aa attr_r resource None tbl"

definition unsetWritability :: "AccessAttributes \<Rightarrow> string \<Rightarrow> table \<Rightarrow> (exn + unit) \<times> table" where
  "unsetWritability aa resource tbl = AccessAttributes_set aa attr_w resource None tbl"

text \<open>\<open>__contains__\<close>.\<close>

definition AccessAttributes_contains :: "AccessAttributes \<Rightarrow> string \<Rightarrow> table \<Rightarrow> bool" where
  "AccessAttributes_contains aa resource tbl =
     (if truthy (location aa) then TableEntry_get tbl resource None \<noteq> None else False)"

subsection \<open>The access controller\<close>

text \<open>
  What the controller asks of the operating system: whether a path exists, and
  \<open>os.path.relpath\<close>, which depends on the working directory.
\<close>

record os_env =
  path_exists :: "string \<Rightarrow> bool"
  relpath :: "string \<Rightarrow> string \<Rightarrow> string"

record AccessController =
  name :: string
  path :: string
  persistent :: AccessAttributes

text \<open>\<open>_format(filename, True)\<close>: the relative path, or \<open>None\<close>, and the absolute path.\<close>

definition u_format :: "AccessController \<Rightarrow> os_env \<Rightarrow> string \<Rightarrow> string option \<times> string" where
  "u_format ac os filename =
     (if prefix [sep] filename
      then (let rel = relpath os filename (path ac)
            in (if prefix ''..'' rel then None else Some rel, filename))
      else (Some filename, path_join (path ac) filename))"

text \<open>\<open>__safe__(access, filename, *args)\<close>; \<open>access\<close> already holds the extra arguments.\<close>

definition AccessController_safe ::
  "AccessController \<Rightarrow> os_env \<Rightarrow> (string \<Rightarrow> table \<Rightarrow> (exn + 'a) \<times> table) \<Rightarrow> string \<Rightarrow> table
     \<Rightarrow> (exn + 'a) \<times> table" where
  "AccessController_safe ac os access filename tbl =
     (case u_format ac os filename of
        (rel, abspath) \<Rightarrow>
          (let rel' = (if truthy rel \<and> \<not> path_exists os abspath
                       then (case rel of
                               None \<Rightarrow> None
                             | Some k \<Rightarrow>
                                 if AccessAttributes_contains (persistent ac) k tbl then rel
                                 else None)
                       else rel)
           in case rel' of
                None \<Rightarrow> (Inl (EnvironmentError None), tbl)
              | Some k \<Rightarrow>
                  if k \<noteq> [] then access k tbl else (Inl (EnvironmentError None), tbl)))"

definition setReadability ::
  "AccessController \<Rightarrow> os_env \<Rightarrow> string \<Rightarrow> bool option \<Rightarrow> table \<Rightarrow> (exn + unit) \<times> table" where
  "setReadability ac os filename r tbl =
     AccessController_safe ac os
       (\<lambda>k. AccessAttributes_setReadability (persistent ac) k r) filename tbl"

definition setWritability ::
  "AccessController \<Rightarrow> os_env \<Rightarrow> string \<Rightarrow> bool option \<Rightarrow> table \<Rightarrow> (exn + unit) \<times> table" where
  "setWritability ac os filename w tbl =
     AccessController_safe ac os
       (\<lambda>k. AccessAttributes_setWritability (persistent ac) k w) filename tbl"

section \<open>Properties of the path functions\<close>

lemma path_split_tail_sep_free: "sep \<notin> set (snd (path_split p))"
  by (auto simp: path_split_def Let_def dest: set_takeWhileD)

lemma rstrip_sep_props:
  assumes "h \<noteq> replicate (length h) sep"
  shows "rstrip_sep h \<noteq> [] \<and> last (rstrip_sep h) \<noteq> sep"
proof -
  have ex: "\<exists>c \<in> set (rev h). c \<noteq> sep"
  proof (rule ccontr)
    assume "\<not> ?thesis"
    then have "\<forall>c \<in> set h. c = sep" by simp
    then have "h = replicate (length h) sep"
      by (simp add: replicate_length_same)
    with assms show False by simp
  qed
  then have ne: "dropWhile (\<lambda>c. c = sep) (rev h) \<noteq> []"
    by (simp add: dropWhile_eq_Nil_conv) 
  then have "hd (dropWhile (\<lambda>c. c = sep) (rev h)) \<noteq> sep"
    using hd_dropWhile by blast
  with ne show ?thesis
    by (simp add: rstrip_sep_def last_rev)
qed

lemma path_split_dir_ok: "dir_ok (fst (path_split p))"
  using rstrip_sep_props by (auto simp: path_split_def Let_def dir_ok_def)

lemma while_sep_free:
  assumes "sep \<notin> set g"
  shows "takeWhile (\<lambda>c. c \<noteq> sep) (rev g @ xs) = rev g @ takeWhile (\<lambda>c. c \<noteq> sep) xs"
    and "dropWhile (\<lambda>c. c \<noteq> sep) (rev g @ xs) = dropWhile (\<lambda>c. c \<noteq> sep) xs"
  using assms by (auto intro!: takeWhile_append2 dropWhile_append2)

lemma path_split_sep_free:
  assumes "sep \<notin> set g"
  shows "path_split g = ([], g)"
proof -
  have tw: "takeWhile (\<lambda>c. c \<noteq> sep) (rev g) = rev g"
    and dw: "dropWhile (\<lambda>c. c \<noteq> sep) (rev g) = []"
    using assms by auto
  show ?thesis
    unfolding path_split_def Let_def tw dw by simp
qed

lemma path_split_join:
  assumes g: "sep \<notin> set g" and d: "dir_ok d"
  shows "path_split (path_join d g) = (d, g)"
proof -
  have npre: "\<not> prefix [sep] g"
    using g by (auto simp: prefix_def)
  note tw = while_sep_free [OF g]
  consider (empty) "d = []" | (seps) "d \<noteq> []" "d = replicate (length d) sep"
    | (proper) "d \<noteq> []" "d \<noteq> replicate (length d) sep" "last d \<noteq> sep"
    using d by (auto simp: dir_ok_def)
  then show ?thesis
  proof cases
    case empty
    then show ?thesis using g npre by (simp add: path_join_def path_split_sep_free)
  next
    case seps
    then obtain n where n: "d = replicate (Suc n) sep"
      by (metis length_0_conv not0_implies_Suc)
    have suf: "suffix [sep] d"
      unfolding n by (metis replicate_append_same replicate_Suc suffixI)
    have j: "path_join d g = d @ g"
      using npre suf by (simp add: path_join_def)
    have "path_split (d @ g) = (d, g)"
      unfolding n by (simp add: path_split_def Let_def tw replicate_append_same)
    then show ?thesis using j by simp
  next
    case proper
    have nsuf: "\<not> suffix [sep] d"
      using proper by (auto simp: suffix_def)
    have j: "path_join d g = d @ sep # g"
      using npre nsuf proper by (simp add: path_join_def)
    have r: "rstrip_sep (d @ [sep]) = d"
      using proper by (cases "rev d") (auto simp: rstrip_sep_def last_rev)
    have "d @ [sep] \<noteq> replicate (Suc (length d)) sep"
    proof
      assume "d @ [sep] = replicate (Suc (length d)) sep"
      then have "d @ [sep] = replicate (length d) sep @ [sep]"
        by (simp add: replicate_append_same)
      then show False using proper by simp
    qed
    then have "path_split (d @ sep # g) = (d, g)"
      using r by (simp add: path_split_def Let_def tw)
    then show ?thesis using j by simp
  qed
qed

lemma path_basename_split: "path_basename p = snd (path_split p)"
  by (simp add: path_basename_def path_split_def Let_def)

lemma with_path_split:
  assumes "sep \<notin> set (f (snd (path_split p)))"
  shows "path_split (with_path p f) = (fst (path_split p), f (snd (path_split p)))"
  using assms path_split_join [OF _ path_split_dir_ok, of "f (snd (path_split p))" p]
  by (simp add: with_path_def split_beta)

lemma with_path_idem:
  assumes "sep \<notin> set (f (snd (path_split p)))"
    and "f (f (snd (path_split p))) = f (snd (path_split p))"
  shows "with_path (with_path p f) f = with_path p f"
  using with_path_split [of f p] assms
  by (simp add: with_path_def split_beta)

section \<open>Properties of the marker codec\<close>

lemma Relay_init_fields:
  assumes "Relay_init cl t ts = Inr r"
  shows "u_placeholder_prefix r = ''.''" "u_placeholder_suffix r = ''.placeholder''"
    "u_lock_prefix r = ''.''" "u_lock_suffix r = ''.lock''"
    "u_message_prefix r = ''.''" "u_message_suffix r = ''.message''"
    "u_message_hash r = None" "client r = cl"
  using assms by (auto simp: Relay_init_def split: if_splits)

lemma sep_free_markers:
  assumes "Relay_init cl t ts = Inr r" and "sep \<notin> set f"
  shows "sep \<notin> set (u_placeholder r f)" "sep \<notin> set (u_lock r f)"
    "sep \<notin> set (u_safePlaceholder r f)" "sep \<notin> set (u_safeLock r f)"
  using assms(2) Relay_init_fields [OF assms(1)]
  by (auto simp: u_placeholder_def u_lock_def u_safePlaceholder_def u_safeLock_def sep_def)

lemma u_isPlaceholder_u_placeholder: "u_isPlaceholder r (u_placeholder r f)"
  by (simp add: u_isPlaceholder_def u_placeholder_def suffix_def)

lemma u_isLock_u_lock: "u_isLock r (u_lock r f)"
  by (simp add: u_isLock_def u_lock_def suffix_def)

lemma u_safePlaceholder_idem: "u_safePlaceholder r (u_safePlaceholder r f) = u_safePlaceholder r f"
  by (simp add: u_safePlaceholder_def u_isPlaceholder_u_placeholder)

lemma u_safeLock_idem: "u_safeLock r (u_safeLock r f) = u_safeLock r f"
  by (simp add: u_safeLock_def u_isLock_u_lock)

section \<open>Idempotence of the safe name wrappers\<close>

text \<open>
  Claim C9. For every path \<open>F\<close>, applying \<open>placeholder\<close> (the safe placeholder-name wrapper)
  twice gives the same result as applying it once, and the same holds for \<open>lock\<close>, the safe
  lock-name wrapper. The relay is any object that \<open>Relay.__init__\<close> returns.
\<close>

theorem safe_wrappers_idempotent:
  assumes "Relay_init cl t ts = Inr r"
  shows "placeholder r (placeholder r F) = placeholder r F \<and> lock r (lock r F) = lock r F"
  unfolding placeholder_def lock_def
  using sep_free_markers(3,4) [OF assms path_split_tail_sep_free]
  by (simp add: with_path_idem u_safePlaceholder_idem u_safeLock_idem)

theorem safe_wrappers_idempotent_witness:
  "placeholder (projr (Relay_init (Some ''A'') (TBool True) False))
     (placeholder (projr (Relay_init (Some ''A'') (TBool True) False)) ''docs/report.txt'')
   = ''docs/.report.txt.placeholder''
   \<and> lock (projr (Relay_init (Some ''A'') (TBool True) False))
     (lock (projr (Relay_init (Some ''A'') (TBool True) False)) ''docs/report.txt'')
   = ''docs/.report.txt.lock''"
  using safe_wrappers_idempotent [of "Some ''A''" "TBool True" False
      "projr (Relay_init (Some ''A'') (TBool True) False)" "''docs/report.txt''"]
  by (simp add: Relay_init_def placeholder_def lock_def with_path_def path_split_def
      path_join_def sep_def rstrip_sep_def u_safePlaceholder_def u_safeLock_def
      u_isPlaceholder_def u_isLock_def u_placeholder_def u_lock_def suffix_to_prefix)

section \<open>The wrapper and the existence checks\<close>

lemma u_safe_Inr: "u_safe callback args = Inr v \<longleftrightarrow> callback args = Inr v"
  by (auto simp: u_safe_def split: sum.splits exn.splits)

lemma u_safe_success: "callback args = Inr v \<Longrightarrow> u_safe callback args = Inr v"
  by (simp add: u_safe_Inr)

lemma path_basename_sep_free: "sep \<notin> set g \<Longrightarrow> path_basename g = g"
  by (simp add: path_basename_split path_split_sep_free)

lemma u_safe_Inl: "callback args = Inl e \<Longrightarrow> \<exists>e'. u_safe callback args = Inl e'"
  by (simp add: u_safe_def split: exn.splits)

lemma exists_remote_marker:
  assumes "sep \<notin> set g"
  shows "exists_remote u_list g d = Inr b \<longleftrightarrow> (\<exists>ls. u_list (d, False) = Inr ls \<and> b = (g \<in> set ls))"
proof -
  have dg: "(if d = [] then path_split g else (d, g)) = (d, g)"
    using assms by (simp add: path_split_sep_free)
  have eq: "exists_remote u_list g d =
      (case u_safe u_list (d, False) of Inl e \<Rightarrow> Inl e | Inr ls \<Rightarrow> Inr (g \<in> set ls))"
    unfolding exists_remote_def dg by simp
  show ?thesis
  proof (cases "u_list (d, False)")
    case (Inl e)
    then obtain e' where "u_safe u_list (d, False) = Inl e'"
      using u_safe_Inl [of u_list "(d, False)" e] by auto
    then show ?thesis using eq Inl by simp
  next
    case (Inr ls)
    then have "u_safe u_list (d, False) = Inr ls"
      using u_safe_success [of u_list "(d, False)" ls] by simp
    then show ?thesis using eq Inr by auto
  qed
qed

lemma IRelay_hasPlaceholder_eq:
  assumes "Relay_init cl t ts = Inr r"
  shows "IRelay_hasPlaceholder r u_list F = Inr b \<longleftrightarrow>
    (\<exists>ls. u_list (fst (path_split F), False) = Inr ls \<and> b = (u_placeholder r (snd (path_split F)) \<in> set ls))"
proof -
  have "isPlaceholder r (u_placeholder r (snd (path_split F)))"
    using sep_free_markers(1) [OF assms path_split_tail_sep_free, of F]
    by (simp add: isPlaceholder_def path_basename_sep_free u_isPlaceholder_u_placeholder)
  then show ?thesis
    unfolding IRelay_hasPlaceholder_def listPlaceholders_def
    by (cases "u_list (fst (path_split F), False)") (auto simp: split_beta)
qed

lemma IRelay_hasLock_eq:
  assumes "Relay_init cl t ts = Inr r"
  shows "IRelay_hasLock r u_list F = Inr b \<longleftrightarrow>
    (\<exists>ls. u_list (fst (path_split F), False) = Inr ls \<and> b = (u_lock r (snd (path_split F)) \<in> set ls))"
proof -
  have "isLock r (u_lock r (snd (path_split F)))"
    using sep_free_markers(2) [OF assms path_split_tail_sep_free, of F]
    by (simp add: isLock_def path_basename_sep_free u_isLock_u_lock)
  then show ?thesis
    unfolding IRelay_hasLock_def listLocks_def
    by (cases "u_list (fst (path_split F), False)") (auto simp: split_beta)
qed

lemma Relay_hasPlaceholder_eq:
  assumes "Relay_init cl t ts = Inr r"
  shows "Relay_hasPlaceholder r u_list F = Inr b \<longleftrightarrow>
    (\<exists>ls. u_list (fst (path_split F), False) = Inr ls \<and> b = (u_placeholder r (snd (path_split F)) \<in> set ls))"
  using exists_remote_marker [OF sep_free_markers(1) [OF assms path_split_tail_sep_free]]
  by (simp add: Relay_hasPlaceholder_def split_beta)

lemma Relay_hasLock_eq:
  assumes "Relay_init cl t ts = Inr r"
  shows "Relay_hasLock r u_list F = Inr b \<longleftrightarrow>
    (\<exists>ls. u_list (fst (path_split F), False) = Inr ls \<and> b = (u_lock r (snd (path_split F)) \<in> set ls))"
  using exists_remote_marker [OF sep_free_markers(2) [OF assms path_split_tail_sep_free]]
  by (simp add: Relay_hasLock_def split_beta)

section \<open>The two implementations of \<open>hasPlaceholder\<close> and \<open>hasLock\<close>\<close>

text \<open>
  Claim C10. For every remote file \<open>F\<close> and every transport listing \<open>u_list\<close>, the
  implementation of \<open>hasPlaceholder\<close> in \<open>Relay\<close> (existence of the placeholder name in
  the listing of the directory) and the one in \<open>IRelay\<close> (membership in the listed
  placeholders) return the same boolean: one returns \<open>b\<close> exactly when the other does.
  The same holds for the two implementations of \<open>hasLock\<close>.
\<close>

theorem hasPlaceholder_implementations_agree:
  assumes "Relay_init cl t ts = Inr r"
  shows "(Relay_hasPlaceholder r u_list F = Inr b) = (IRelay_hasPlaceholder r u_list F = Inr b)
       \<and> (Relay_hasLock r u_list F = Inr b) = (IRelay_hasLock r u_list F = Inr b)"
  by (simp add: Relay_hasPlaceholder_eq [OF assms] IRelay_hasPlaceholder_eq [OF assms]
      Relay_hasLock_eq [OF assms] IRelay_hasLock_eq [OF assms])

lemmas codec_eval = Relay_init_def placeholder_def lock_def with_path_def path_split_def
      path_join_def path_basename_def sep_def rstrip_sep_def u_safePlaceholder_def u_safeLock_def
      u_isPlaceholder_def u_isLock_def u_isMessage_def u_placeholder_def u_lock_def
      isPlaceholder_def isLock_def isMessage_def suffix_to_prefix essential_join_def

theorem hasPlaceholder_implementations_agree_witness:
  "Relay_hasPlaceholder (projr (Relay_init (Some ''A'') (TBool True) False))
      (\<lambda>args. Inr [''.x.placeholder'', ''x'', ''.y.lock'']) ''x'' = Inr True
   \<and> IRelay_hasPlaceholder (projr (Relay_init (Some ''A'') (TBool True) False))
      (\<lambda>args. Inr [''.x.placeholder'', ''x'', ''.y.lock'']) ''x'' = Inr True
   \<and> Relay_hasLock (projr (Relay_init (Some ''A'') (TBool True) False))
      (\<lambda>args. Inr [''.x.placeholder'', ''x'', ''.y.lock'']) ''x'' = Inr False
   \<and> IRelay_hasLock (projr (Relay_init (Some ''A'') (TBool True) False))
      (\<lambda>args. Inr [''.x.placeholder'', ''x'', ''.y.lock'']) ''x'' = Inr False"
  using hasPlaceholder_implementations_agree [of "Some ''A''" "TBool True" False
      "projr (Relay_init (Some ''A'') (TBool True) False)"
      "\<lambda>args. Inr [''.x.placeholder'', ''x'', ''.y.lock'']" "''x''"]
  by (simp add: codec_eval Relay_hasPlaceholder_def Relay_hasLock_def exists_remote_def u_safe_def
      IRelay_hasPlaceholder_def IRelay_hasLock_def listPlaceholders_def listLocks_def)

section \<open>Escalation of resource exhaustion\<close>

text \<open>
  Claim C7. If the callback wrapped by \<open>_safe\<close> raises an environment error whose
  \<open>errno\<close> is 24, \<open>_safe\<close> raises \<open>UnrecoverableError\<close> built from it; every other exception
  of the callback is raised unchanged, and a returned value is returned.
\<close>

theorem u_safe_escalates_errno_24:
  "(callback args = Inl (EnvironmentError (Some 24)) \<longrightarrow>
      u_safe callback args = Inl (UnrecoverableError (EnvironmentError (Some 24))))
   \<and> (callback args = Inl e \<and> e \<noteq> EnvironmentError (Some 24) \<longrightarrow> u_safe callback args = Inl e)
   \<and> (callback args = Inr v \<longrightarrow> u_safe callback args = Inr v)"
  by (auto simp: u_safe_def split: exn.splits)

theorem u_safe_escalates_errno_24_witness:
  "u_safe (\<lambda>remote_dir. if remote_dir = ''full'' then Inl (EnvironmentError (Some 24))
                         else if remote_dir = ''gone'' then Inl (EnvironmentError (Some 2))
                         else Inr [''x'']) ''full''
     = Inl (UnrecoverableError (EnvironmentError (Some 24)))
   \<and> u_safe (\<lambda>remote_dir. if remote_dir = ''full'' then Inl (EnvironmentError (Some 24))
                         else if remote_dir = ''gone'' then Inl (EnvironmentError (Some 2))
                         else Inr [''x'']) ''gone''
     = Inl (EnvironmentError (Some 2))
   \<and> u_safe (\<lambda>remote_dir. if remote_dir = ''full'' then Inl (EnvironmentError (Some 24))
                         else if remote_dir = ''gone'' then Inl (EnvironmentError (Some 2))
                         else Inr [''x'']) ''dir''
     = Inr [''x'']"
  using
    u_safe_escalates_errno_24 [of "\<lambda>remote_dir. if remote_dir = ''full'' then Inl (EnvironmentError (Some 24))
                         else if remote_dir = ''gone'' then Inl (EnvironmentError (Some 2))
                         else Inr [''x'']" "''full''" "EnvironmentError (Some 24)" "[''x'']"]
    u_safe_escalates_errno_24 [of "\<lambda>remote_dir. if remote_dir = ''full'' then Inl (EnvironmentError (Some 24))
                         else if remote_dir = ''gone'' then Inl (EnvironmentError (Some 2))
                         else Inr [''x'']" "''gone''" "EnvironmentError (Some 2)" "[''x'']"]
    u_safe_escalates_errno_24 [of "\<lambda>remote_dir. if remote_dir = ''full'' then Inl (EnvironmentError (Some 24))
                         else if remote_dir = ''gone'' then Inl (EnvironmentError (Some 2))
                         else Inr [''x'']" "''dir''" "EnvironmentError (Some 2)" "[''x'']"]
  by simp

lemma listReady_loop_filter:
  "listReady_loop r ls rest ready =
     ready @ filter (\<lambda>file. \<not> u_isLock r (snd (path_split file))
                          \<and> \<not> u_isPlaceholder r (snd (path_split file))
                          \<and> essential_join (fst (path_split file)) (u_lock r (snd (path_split file)))
                              \<notin> set ls) rest"
  by (induction rest arbitrary: ready) (auto simp: split_beta Let_def)

lemma lock_of_regular:
  "\<not> u_isLock r (snd (path_split file)) \<Longrightarrow>
     essential_join (fst (path_split file)) (u_lock r (snd (path_split file))) = lock r file"
  by (simp add: lock_def with_path_def split_beta essential_join_def u_safeLock_def)

section \<open>The files ready for download\<close>

text \<open>
  Claim C4, amended. \<open>listReady\<close> returns exactly the names of the listing, in order,
  whose final component is neither a lock nor a placeholder and whose lock name is not in
  the same listing. Message markers are not excluded.
\<close>

theorem listReady_exact:
  assumes "u_list (remote_dir, recursive) = Inr ls"
  shows "listReady r u_list remote_dir recursive =
     Inr (filter (\<lambda>file. \<not> isLock r file \<and> \<not> isPlaceholder r file \<and> lock r file \<notin> set ls) ls)"
proof -
  have "u_safe u_list (remote_dir, recursive) = Inr ls"
    using assms u_safe_success [of u_list "(remote_dir, recursive)" ls] by simp
  moreover have "filter (\<lambda>file. \<not> u_isLock r (snd (path_split file))
                          \<and> \<not> u_isPlaceholder r (snd (path_split file))
                          \<and> essential_join (fst (path_split file)) (u_lock r (snd (path_split file)))
                              \<notin> set ls) ls
      = filter (\<lambda>file. \<not> isLock r file \<and> \<not> isPlaceholder r file \<and> lock r file \<notin> set ls) ls"
    by (rule filter_cong) (auto simp: isLock_def isPlaceholder_def path_basename_split lock_of_regular)
  ultimately show ?thesis
    by (simp add: listReady_def listReady_loop_filter)
qed

theorem listReady_exact_witness:
  "listReady (projr (Relay_init (Some ''A'') (TBool True) False))
     (\<lambda>args. Inr [''a.txt'', ''.a.txt.placeholder'', ''b.txt'', ''.b.txt.lock'', ''sub/c.txt''])
     [] True
   = Inr [''a.txt'', ''sub/c.txt'']"
  using listReady_exact [of
      "\<lambda>args. Inr [''a.txt'', ''.a.txt.placeholder'', ''b.txt'', ''.b.txt.lock'', ''sub/c.txt'']"
      "[]" True "[''a.txt'', ''.a.txt.placeholder'', ''b.txt'', ''.b.txt.lock'', ''sub/c.txt'']"
      "projr (Relay_init (Some ''A'') (TBool True) False)"]
  by (simp add: codec_eval)

text \<open>
  Claim C4 as stated fails: \<open>listReady\<close> returns the name \<open>.foo.message\<close>, which the
  codec classifies as a message and hence as a marker.
\<close>

theorem listReady_returns_message_marker:
  "listReady (projr (Relay_init (Some ''A'') (TBool True) False))
     (\<lambda>args. Inr [''.foo.message'']) [] True = Inr [''.foo.message'']
   \<and> isMessage (projr (Relay_init (Some ''A'') (TBool True) False)) ''.foo.message''
   \<and> isSpecial (projr (Relay_init (Some ''A'') (TBool True) False)) ''.foo.message''"
  by (simp add: codec_eval listReady_def u_safe_def isSpecial_def u_isSpecial_def)

section \<open>The message codec\<close>

text \<open>
  Claim C8 at the input \<open>hello.txt\<close>: computing the message name raises
  \<open>AttributeError\<close>, so the message codec has no round trip.
\<close>

theorem message_name_raises:
  "message (projr (Relay_init (Some ''A'') (TBool True) False)) ''hello.txt''
     = Inl (AttributeError ''message_hash'')"
  by (simp add: codec_eval message_def u_safeMessage_def u_message_def getattr_message_hash_def)

lemma u_message_raises: "u_message r filename filepath = Inl (AttributeError ''message_hash'')"
  by (simp add: u_message_def getattr_message_hash_def)

lemma u_fromPlaceholder_u_placeholder: "u_fromPlaceholder r (u_placeholder r f) = f"
  by (simp add: u_fromPlaceholder_def u_placeholder_def py_slice_def)

lemma u_fromLock_u_lock: "u_fromLock r (u_lock r f) = f"
  by (simp add: u_fromLock_def u_lock_def py_slice_def)

text \<open>
  The placeholder and lock codecs do round-trip: for a path \<open>F\<close> whose final component
  is neither placeholder- nor lock-shaped and that \<open>os.path.split\<close> and \<open>os.path.join\<close>
  give back unchanged, the placeholder name is classified as a placeholder and decodes to
  \<open>F\<close>, and likewise for the lock name.
\<close>

theorem placeholder_lock_roundtrip:
  assumes init: "Relay_init cl t ts = Inr r"
    and regular: "\<not> isPlaceholder r F" "\<not> isLock r F"
    and stable: "path_join (fst (path_split F)) (snd (path_split F)) = F"
  shows "isPlaceholder r (placeholder r F) \<and> fromPlaceholder r (placeholder r F) = F
       \<and> isLock r (lock r F) \<and> fromLock r (lock r F) = F"
proof -
  let ?d = "fst (path_split F)" and ?f = "snd (path_split F)"
  have p: "placeholder r F = path_join ?d (u_placeholder r ?f)"
    using regular(1)
    by (simp add: placeholder_def with_path_def split_beta u_safePlaceholder_def
        isPlaceholder_def path_basename_split)
  have l: "lock r F = path_join ?d (u_lock r ?f)"
    using regular(2)
    by (simp add: lock_def with_path_def split_beta u_safeLock_def isLock_def path_basename_split)
  have sp: "path_split (placeholder r F) = (?d, u_placeholder r ?f)"
    unfolding p
    by (rule path_split_join [OF sep_free_markers(1) [OF init path_split_tail_sep_free]
          path_split_dir_ok])
  have sl: "path_split (lock r F) = (?d, u_lock r ?f)"
    unfolding l
    by (rule path_split_join [OF sep_free_markers(2) [OF init path_split_tail_sep_free]
          path_split_dir_ok])
  show ?thesis
    using stable
    by (simp add: isPlaceholder_def isLock_def fromPlaceholder_def fromLock_def with_path_def
        path_basename_split sp sl u_isPlaceholder_u_placeholder u_isLock_u_lock
        u_fromPlaceholder_u_placeholder u_fromLock_u_lock)
qed

theorem placeholder_lock_roundtrip_witness:
  "fromPlaceholder (projr (Relay_init (Some ''A'') (TBool True) False))
      (placeholder (projr (Relay_init (Some ''A'') (TBool True) False)) ''docs/report.txt'')
     = ''docs/report.txt''
   \<and> fromLock (projr (Relay_init (Some ''A'') (TBool True) False))
      (lock (projr (Relay_init (Some ''A'') (TBool True) False)) ''docs/report.txt'')
     = ''docs/report.txt''
   \<and> placeholder (projr (Relay_init (Some ''A'') (TBool True) False)) ''docs/report.txt''
     = ''docs/.report.txt.placeholder''"
  using placeholder_lock_roundtrip [of "Some ''A''" "TBool True" False
      "projr (Relay_init (Some ''A'') (TBool True) False)" "''docs/report.txt''"]
  by (simp add: codec_eval)

section \<open>Effects of the relay operations on the store\<close>

lemma touch_eq:
  "touch rp c w =
     Inr (w\<lparr> local_files := (local_files w)(Tmp (next_tmp w) := None),
            next_tmp := Suc (next_tmp w),
            remote := AList.update rp (written c) (remote w) \<rparr>)"
  by (simp add: touch_def u_safe_def mkstemp_def transport_push_def finally_unlink_def
      os_unlink_def Let_def)

lemma unlink_eq:
  assumes "map_of (remote w) rp = Some c"
  shows "unlink rp w =
     Inr (w\<lparr> local_files := (local_files w)(Tmp (next_tmp w) := None),
            next_tmp := Suc (next_tmp w),
            remote := AList.delete rp (remote w) \<rparr>)"
  using assms
  by (simp add: unlink_def u_safe_def mkstemp_def transport_pop_def transport_get_def
      finally_unlink_def os_unlink_def Let_def)

lemma marker_paths:
  assumes init: "Relay_init cl t ts = Inr r"
    and regular: "\<not> isPlaceholder r F" "\<not> isLock r F"
  shows "path_split (placeholder r F) = (fst (path_split F), u_placeholder r (snd (path_split F)))"
    and "path_split (lock r F) = (fst (path_split F), u_lock r (snd (path_split F)))"
    and "placeholder r F \<noteq> F" and "lock r F \<noteq> F" and "lock r F \<noteq> placeholder r F"
proof -
  let ?d = "fst (path_split F)" and ?f = "snd (path_split F)"
  have p: "placeholder r F = path_join ?d (u_placeholder r ?f)"
    using regular(1)
    by (simp add: placeholder_def with_path_def split_beta u_safePlaceholder_def
        isPlaceholder_def path_basename_split)
  have l: "lock r F = path_join ?d (u_lock r ?f)"
    using regular(2)
    by (simp add: lock_def with_path_def split_beta u_safeLock_def isLock_def path_basename_split)
  show sp: "path_split (placeholder r F) = (?d, u_placeholder r ?f)"
    unfolding p
    by (rule path_split_join [OF sep_free_markers(1) [OF init path_split_tail_sep_free]
          path_split_dir_ok])
  show sl: "path_split (lock r F) = (?d, u_lock r ?f)"
    unfolding l
    by (rule path_split_join [OF sep_free_markers(2) [OF init path_split_tail_sep_free]
          path_split_dir_ok])
  have "length (u_placeholder r ?f) \<noteq> length ?f" "length (u_lock r ?f) \<noteq> length ?f"
    "length (u_lock r ?f) \<noteq> length (u_placeholder r ?f)"
    using Relay_init_fields [OF init] by (simp_all add: u_placeholder_def u_lock_def)
  then have "u_placeholder r ?f \<noteq> ?f" "u_lock r ?f \<noteq> ?f" "u_lock r ?f \<noteq> u_placeholder r ?f"
    by auto
  then show "placeholder r F \<noteq> F" "lock r F \<noteq> F" "lock r F \<noteq> placeholder r F"
    using sp sl by (metis snd_conv)+
qed

lemma transport_list_flat:
  "transport_list w (d, False) =
     Inr (map (\<lambda>p. snd (path_split p)) (filter (\<lambda>p. fst (path_split p) = d) (map fst (remote w))))"
  by (simp add: transport_list_def)

lemma hasPlaceholder_present:
  assumes init: "Relay_init cl t ts = Inr r"
    and regular: "\<not> isPlaceholder r F" "\<not> isLock r F"
    and present: "map_of (remote w) (placeholder r F) = Some p"
  shows "Relay_hasPlaceholder r (transport_list w) F = Inr True"
proof -
  have "placeholder r F \<in> set (map fst (remote w))"
    using present by (metis map_of_SomeD set_zip_leftD zip_map_fst_snd)
  then have "u_placeholder r (snd (path_split F))
      \<in> set (map (\<lambda>p. snd (path_split p))
                (filter (\<lambda>p. fst (path_split p) = fst (path_split F)) (map fst (remote w))))"
    using marker_paths(1) [OF init regular] by force
  then show ?thesis
    using Relay_hasPlaceholder_eq [OF init, of "transport_list w" F True]
    by (simp add: transport_list_flat)
qed

lemma map_of_present: "map_of al k = Some v \<Longrightarrow> map_of (AList.update k' v' al) k = (if k = k' then Some v' else Some v)"
  by (simp add: update_conv')

lemma pop_count_reads_many:
  assumes init: "Relay_init cl t ts = Inr r"
    and regular: "\<not> isPlaceholder r F" "\<not> isLock r F"
    and N: "1 < N"
    and ph: "map_of (remote w) (placeholder r F) = Some p"
    and rd: "text_readlines (python_version w) (decodes w) p = Inr lns"
  shows "pop_count_reads r F N kwargs w =
     Inr ((int (length lns) - 1 < N - 1, True, Some (Tmp (next_tmp w))),
          w\<lparr> local_files := (local_files w)(Tmp (next_tmp w) \<mapsto> p),
             next_tmp := Suc (next_tmp w),
             u_temporary_files := u_temporary_files w @ [Tmp (next_tmp w)] \<rparr>)"
  using N ph rd hasPlaceholder_present [OF init regular ph]
  by (simp add: pop_count_reads_def newTemporaryFile_def mkstemp_def u_safe_def
      transport_get_def Let_def)

lemma pop_locked_many:
  assumes init: "Relay_init cl t ts = Inr r"
    and regular: "\<not> isPlaceholder r F" "\<not> isLock r F"
    and N: "1 < N"
    and lk: "map_of (remote w) (lock r F) = Some b"
    and ph: "map_of (remote w) (placeholder r F) = Some p"
    and rf: "map_of (remote w) F = Some c"
    and rd: "text_readlines (python_version w) (decodes w) p = Inr lns"
  shows "\<exists>w'. pop_locked r F dest N kwargs w = Inr (True, w')
      \<and> local_files w' (Local dest) = Some c
      \<and> map_of (remote w') F = (if int (length lns) - 1 < N - 1 then Some c else None)
      \<and> map_of (remote w') (placeholder r F) = Some p
      \<and> map_of (remote w') (lock r F) = None"
proof -
  note ne = marker_paths(3,4,5) [OF init regular]
  have ne': "F \<noteq> placeholder r F" "F \<noteq> lock r F" "placeholder r F \<noteq> lock r F"
    using ne by auto
  show ?thesis
  proof (cases "int (length lns) - 1 < N - 1")
    case True
    then show ?thesis
      using N lk ph rf ne ne'
      by (simp add: pop_locked_def pop_count_reads_many [OF init regular N ph rd] u_safe_def
          transport_get_def transport_pop_def transport_push_def markAsRead_def
          delTemporaryFile_def os_unlink_def releaseLock_def unlink_eq update_conv'
          delete_conv' Let_def)
  next
    case False
    then show ?thesis
      using N lk ph rf ne ne'
      by (simp add: pop_locked_def pop_count_reads_many [OF init regular N ph rd] u_safe_def
          transport_get_def transport_pop_def transport_push_def markAsRead_def
          delTemporaryFile_def os_unlink_def releaseLock_def unlink_eq update_conv'
          delete_conv' Let_def)
  qed
qed

lemma acquireLock_free:
  assumes "Relay_hasLock r (transport_list w) F = Inr False"
  shows "acquireLock info r F md blocking w =
     Some (Inr (True,
       w\<lparr> local_files := (local_files w)(Tmp (next_tmp w) := None),
          next_tmp := Suc (next_tmp w),
          remote := AList.update (lock r F)
                      (repr_LockInfo info \<lparr> owner = client r, mode = Some md, target = None \<rparr>)
                      (remote w) \<rparr>))"
proof -
  have "wait_for_lock r w F = Some (Inr ())"
    by (subst wait_for_lock.simps) (simp add: assms)
  then show ?thesis
    using assms by (simp add: acquireLock_def write_lock_def touch_eq written_def Let_def)
qed

lemma pop_many:
  assumes init: "Relay_init cl t ts = Inr r"
    and regular: "\<not> isPlaceholder r F" "\<not> isLock r F"
    and N: "1 < N"
    and nolock: "Relay_hasLock r (transport_list w) F = Inr False"
    and ph: "map_of (remote w) (placeholder r F) = Some p"
    and rf: "map_of (remote w) F = Some c"
    and rd: "text_readlines (python_version w) (decodes w) p = Inr lns"
  shows "\<exists>w'. pop info r F dest N blocking kwargs w = Some (Inr (True, w'))
      \<and> local_files w' (Local dest) = Some c
      \<and> map_of (remote w') F = (if int (length lns) - 1 < N - 1 then Some c else None)
      \<and> map_of (remote w') (placeholder r F) = Some p
      \<and> map_of (remote w') (lock r F) = None"
proof -
  note ne = marker_paths(3,4,5) [OF init regular]
  let ?w1 = "w\<lparr> local_files := (local_files w)(Tmp (next_tmp w) := None),
          next_tmp := Suc (next_tmp w),
          remote := AList.update (lock r F)
                      (repr_LockInfo info \<lparr> owner = client r, mode = Some ''r'', target = None \<rparr>)
                      (remote w) \<rparr>"
  have lk1: "map_of (remote ?w1) (lock r F)
      = Some (repr_LockInfo info \<lparr> owner = client r, mode = Some ''r'', target = None \<rparr>)"
    by (simp add: update_conv')
  have ph1: "map_of (remote ?w1) (placeholder r F) = Some p"
    using ph ne by (simp add: update_conv')
  have rf1: "map_of (remote ?w1) F = Some c"
    using rf ne by (simp add: update_conv')
  have txt1: "text_readlines (python_version ?w1) (decodes ?w1) p = Inr lns"
    using rd by simp
  have "pop info r F dest N blocking kwargs w = Some (pop_locked r F dest N kwargs ?w1)"
    by (simp add: pop_def acquireLock_free [OF nolock])
  then show ?thesis
    using pop_locked_many [OF init regular N lk1 ph1 rf1 txt1, of dest kwargs] by auto
qed

section \<open>Deletion and the puller count\<close>


lemmas world_eval = transport_list_def Relay_hasLock_def Relay_hasPlaceholder_def exists_remote_def
  u_safe_def split_lines_def newline_def text_readlines_def carriage_return_def



section \<open>Marking as read from \<open>pop\<close>\<close>

text \<open>
  Claim C1 at the input of scenario S2: client \<open>B\<close> pops \<open>x\<close> with two pullers while the
  placeholder holds \<open>1700000000\<close>. The call succeeds and the placeholder still holds
  \<open>1700000000\<close>: \<open>markAsRead\<close> received the local copy and uploaded it as it was.
\<close>

theorem pop_second_puller_placeholder_not_appended:
  "(case pop \<lparr> repr_LockInfo = (\<lambda>i. ''lock''), parse_lock_file = (\<lambda>a. Inr LockInfo) \<rparr>
        (projr (Relay_init (Some ''B'') (TBool True) False)) ''x'' ''x'' 2 False None
        \<lparr> remote = [(''x'', ''data''), (''.x.placeholder'', ''1700000000'')],
          local_files = Map.empty, next_tmp = 0, u_temporary_files = [],
          python_version = 3, decodes = (\<lambda>c. True) \<rparr> of
      Some (Inr (ok, w')) \<Rightarrow>
        ok \<and> map_of (remote w') ''.x.placeholder'' = Some ''1700000000''
           \<and> map_of (remote w') ''.x.placeholder'' \<noteq> Some (''1700000000'' @ newline # ''B'')
    | _ \<Rightarrow> False)"
proof -
  obtain w' where
    "pop \<lparr> repr_LockInfo = (\<lambda>i. ''lock''), parse_lock_file = (\<lambda>a. Inr LockInfo) \<rparr>
        (projr (Relay_init (Some ''B'') (TBool True) False)) ''x'' ''x'' 2 False None
        \<lparr> remote = [(''x'', ''data''), (''.x.placeholder'', ''1700000000'')],
          local_files = Map.empty, next_tmp = 0, u_temporary_files = [],
          python_version = 3, decodes = (\<lambda>c. True) \<rparr>
      = Some (Inr (True, w'))"
    and "map_of (remote w') ''.x.placeholder'' = Some ''1700000000''"
    using pop_many [of "Some ''B''" "TBool True" False
      "projr (Relay_init (Some ''B'') (TBool True) False)" "''x''" 2
      "\<lparr> remote = [(''x'', ''data''), (''.x.placeholder'', ''1700000000'')],
          local_files = Map.empty, next_tmp = 0, u_temporary_files = [],
          python_version = 3, decodes = (\<lambda>c. True) \<rparr>"
      "''1700000000''" "''data''" "[''1700000000'']"
      "\<lparr> repr_LockInfo = (\<lambda>i. ''lock''), parse_lock_file = (\<lambda>a. Inr LockInfo) \<rparr>"
      "''x''" False None]
    by (auto simp add: codec_eval world_eval)
  then show ?thesis by simp
qed

text \<open>
  Without a local copy, \<open>markAsRead\<close> downloads the placeholder, appends a newline and the
  client, and uploads the result.
\<close>

theorem markAsRead_appends_client:
  assumes "map_of (remote w) (placeholder r F) = Some p"
  shows "\<exists>w'. markAsRead r F None w = Inr w'
      \<and> map_of (remote w') (placeholder r F) = Some (p @ newline # format_client (client r))"
  using assms
  by (simp add: markAsRead_def newTemporaryFile_def mkstemp_def u_safe_def transport_get_def
      append_file_def transport_push_def delTemporaryFile_def os_unlink_def update_conv' Let_def)

theorem markAsRead_appends_client_witness:
  "\<exists>w'. markAsRead (projr (Relay_init (Some ''B'') (TBool True) False)) ''x'' None
        \<lparr> remote = [(''x'', ''data''), (''.x.placeholder'', ''1700000000'')],
          local_files = Map.empty, next_tmp = 0, u_temporary_files = [],
          python_version = 3, decodes = (\<lambda>c. True) \<rparr> = Inr w'
      \<and> map_of (remote w') ''.x.placeholder'' = Some (''1700000000'' @ newline # ''B'')"
  using markAsRead_appends_client [of
      "\<lparr> remote = [(''x'', ''data''), (''.x.placeholder'', ''1700000000'')],
          local_files = Map.empty, next_tmp = 0, u_temporary_files = [],
          python_version = 3, decodes = (\<lambda>c. True) \<rparr>"
      "projr (Relay_init (Some ''B'') (TBool True) False)" "''x''" "''1700000000''"]
  by (simp add: codec_eval format_client_def)

lemma markAsRead_given_copy:
  assumes "local_files w lp = Some q" and "lp \<noteq> Local []"
  shows "markAsRead r F (Some lp) w =
     Inr (w\<lparr> remote := AList.update (placeholder r F) q (remote w) \<rparr>)"
  using assms by (simp add: markAsRead_def u_safe_def transport_push_def Let_def)

section \<open>Evaluating the access store\<close>

lemmas access_eval = AccessAttributes_setReadability_def AccessAttributes_setWritability_def
  AccessAttributes_set_def TableEntry_get_def TableEntry_set_def TableEntry_delete_def
  bytes_join_def slice_to_def slice_from_def u_encode_def py_is_def sym_u_def sym_t_def sym_f_def
  sym_undefined_def attr_r_def attr_w_def AccessAttributes_contains_def truthy_def

section \<open>Records of the access store\<close>

text \<open>
  Claim C5 at the input: on an empty store, \<open>setReadability(f, True)\<close> and then
  \<open>setReadability(f, None)\<close>. Both symbols of \<open>f\<close> are undefined afterwards, and the record
  is still in the store, with the value of two spaces.
\<close>

theorem set_both_undefined_keeps_record:
  "(case AccessAttributes_setReadability \<lparr> location = Some ''am.db'' \<rparr> ''f'' (Some True) Map.empty of
      (Inr u, tbl1) \<Rightarrow>
        tbl1 ''f'' = Some ''+ '' \<and>
        (case AccessAttributes_setReadability \<lparr> location = Some ''am.db'' \<rparr> ''f'' None tbl1 of
           (Inr u', tbl2) \<Rightarrow> tbl2 ''f'' = Some ''  ''
         | (Inl e, tbl2) \<Rightarrow> False)
    | (Inl e, tbl1) \<Rightarrow> False)"
  by (simp add: access_eval)

lemma AccessAttributes_set_keeps_key:
  assumes "location aa = Some l"
  shows "fst (AccessAttributes_set aa attr k perm tbl) = Inr ()
       \<and> snd (AccessAttributes_set aa attr k perm tbl) k \<noteq> None"
  using assms
  by (simp add: AccessAttributes_set_def TableEntry_get_def TableEntry_set_def bytes_join_def
      py_is_def sym_undefined_def Let_def split: option.splits)

lemma AccessController_safe_refuses:
  assumes "u_format ac os F = (rel, abspath)"
    and "\<not> path_exists os abspath"
    and "\<forall>k. rel = Some k \<longrightarrow> \<not> AccessAttributes_contains (persistent ac) k tbl"
  shows "AccessController_safe ac os access F tbl = (Inl (EnvironmentError None), tbl)"
  using assms
  by (auto simp: AccessController_safe_def truthy_def Let_def split: option.splits)

lemma AccessController_safe_success:
  assumes "u_format ac os F = (rel, abspath)"
    and "fst (AccessController_safe ac os access F tbl) = Inr v"
  shows "path_exists os abspath \<or> (\<exists>k. rel = Some k \<and> AccessAttributes_contains (persistent ac) k tbl)"
  using assms
  by (auto simp: AccessController_safe_def truthy_def Let_def split: option.splits if_splits)

section \<open>Setting modifiers on missing files\<close>

text \<open>
  Claim C6, amended. When \<open>F\<close> does not exist locally and has no record in the access
  store, \<open>setReadability\<close> and \<open>setWritability\<close> of the controller raise \<open>OSError\<close> and leave
  the store unchanged; and when one of them succeeds, \<open>F\<close> exists locally or has a record in
  the store.
\<close>

theorem setReadability_missing_file:
  assumes "u_format ac os F = (rel, abspath)"
  shows "(\<not> path_exists os abspath
          \<and> (\<forall>k. rel = Some k \<longrightarrow> \<not> AccessAttributes_contains (persistent ac) k tbl)
          \<longrightarrow> setReadability ac os F v tbl = (Inl (EnvironmentError None), tbl)
            \<and> setWritability ac os F v tbl = (Inl (EnvironmentError None), tbl))
       \<and> (fst (setReadability ac os F v tbl) = Inr () \<or> fst (setWritability ac os F v tbl) = Inr ()
          \<longrightarrow> path_exists os abspath
            \<or> (\<exists>k. rel = Some k \<and> AccessAttributes_contains (persistent ac) k tbl))"
proof -
  let ?r = "\<lambda>k. AccessAttributes_setReadability (persistent ac) k v"
  let ?w = "\<lambda>k. AccessAttributes_setWritability (persistent ac) k v"
  have refuse: "\<not> path_exists os abspath
      \<and> (\<forall>k. rel = Some k \<longrightarrow> \<not> AccessAttributes_contains (persistent ac) k tbl)
      \<longrightarrow> AccessController_safe ac os ?r F tbl = (Inl (EnvironmentError None), tbl)
        \<and> AccessController_safe ac os ?w F tbl = (Inl (EnvironmentError None), tbl)"
    using AccessController_safe_refuses [OF assms, of tbl ?r]
      AccessController_safe_refuses [OF assms, of tbl ?w]
    by simp
  have success: "fst (AccessController_safe ac os ?r F tbl) = Inr ()
      \<or> fst (AccessController_safe ac os ?w F tbl) = Inr ()
      \<longrightarrow> path_exists os abspath
        \<or> (\<exists>k. rel = Some k \<and> AccessAttributes_contains (persistent ac) k tbl)"
    using AccessController_safe_success [OF assms, of ?r tbl "()"]
      AccessController_safe_success [OF assms, of ?w tbl "()"]
    by auto
  show ?thesis
    unfolding setReadability_def setWritability_def
    using refuse success by simp
qed

lemmas controller_eval = setReadability_def setWritability_def AccessController_safe_def
  u_format_def path_join_def sep_def suffix_to_prefix

theorem setReadability_missing_file_witness:
  "setReadability
      \<lparr> name = ''repo'', path = ''/home/a/repo'', persistent = \<lparr> location = Some ''am.db'' \<rparr> \<rparr>
      \<lparr> path_exists = (\<lambda>p. p = ''/home/a/repo/here.txt''), relpath = (\<lambda>p start. p) \<rparr>
      ''gone.txt'' (Some True) Map.empty
     = (Inl (EnvironmentError None), Map.empty)
   \<and> setWritability
      \<lparr> name = ''repo'', path = ''/home/a/repo'', persistent = \<lparr> location = Some ''am.db'' \<rparr> \<rparr>
      \<lparr> path_exists = (\<lambda>p. p = ''/home/a/repo/here.txt''), relpath = (\<lambda>p start. p) \<rparr>
      ''gone.txt'' (Some True) Map.empty
     = (Inl (EnvironmentError None), Map.empty)
   \<and> fst (setReadability
      \<lparr> name = ''repo'', path = ''/home/a/repo'', persistent = \<lparr> location = Some ''am.db'' \<rparr> \<rparr>
      \<lparr> path_exists = (\<lambda>p. p = ''/home/a/repo/here.txt''), relpath = (\<lambda>p start. p) \<rparr>
      ''here.txt'' (Some True) Map.empty) = Inr ()"
  using setReadability_missing_file [of
      "\<lparr> name = ''repo'', path = ''/home/a/repo'', persistent = \<lparr> location = Some ''am.db'' \<rparr> \<rparr>"
      "\<lparr> path_exists = (\<lambda>p. p = ''/home/a/repo/here.txt''), relpath = (\<lambda>p start. p) \<rparr>"
      "''gone.txt''" "Some ''gone.txt''" "''/home/a/repo/gone.txt''" Map.empty "Some True"]
  by (simp add: controller_eval access_eval)

text \<open>
  Claim C6 as stated fails: for a file that is missing locally but has a record, the call
  succeeds and changes the store.
\<close>

theorem setReadability_missing_file_with_record:
  "\<not> path_exists \<lparr> path_exists = (\<lambda>p. p = ''/home/a/repo/here.txt''), relpath = (\<lambda>p start. p) \<rparr>
        (snd (u_format
           \<lparr> name = ''repo'', path = ''/home/a/repo'', persistent = \<lparr> location = Some ''am.db'' \<rparr> \<rparr>
           \<lparr> path_exists = (\<lambda>p. p = ''/home/a/repo/here.txt''), relpath = (\<lambda>p start. p) \<rparr>
           ''gone.txt''))
   \<and> fst (setReadability
      \<lparr> name = ''repo'', path = ''/home/a/repo'', persistent = \<lparr> location = Some ''am.db'' \<rparr> \<rparr>
      \<lparr> path_exists = (\<lambda>p. p = ''/home/a/repo/here.txt''), relpath = (\<lambda>p start. p) \<rparr>
      ''gone.txt'' (Some False) [''gone.txt'' \<mapsto> ''+ '']) = Inr ()
   \<and> snd (setReadability
      \<lparr> name = ''repo'', path = ''/home/a/repo'', persistent = \<lparr> location = Some ''am.db'' \<rparr> \<rparr>
      \<lparr> path_exists = (\<lambda>p. p = ''/home/a/repo/here.txt''), relpath = (\<lambda>p start. p) \<rparr>
      ''gone.txt'' (Some False) [''gone.txt'' \<mapsto> ''+ '']) ''gone.txt'' = Some ''- ''"
  by (simp add: controller_eval access_eval)

section \<open>Reading lock blobs\<close>

lemma getLockInfo_eq:
  assumes "lock_info_at info r (remote w) t = Inr i"
  shows "getLockInfo info r t w =
     Inr (i, w\<lparr> local_files := (local_files w)(Tmp (next_tmp w) := None),
                next_tmp := Suc (next_tmp w) \<rparr>)"
proof (cases "map_of (remote w) (lock r t)")
  case None
  then show ?thesis
    using assms
    by (simp add: getLockInfo_def lock_info_at_def u_safe_def mkstemp_def transport_get_def
        os_unlink_def is_Unrecoverable_def Let_def)
next
  case (Some c)
  then have "u_safe (parse_lock_file info) (c, t) = Inr i"
    using assms by (simp add: lock_info_at_def)
  then show ?thesis
    using Some
    by (simp add: getLockInfo_def mkstemp_def transport_get_def os_unlink_def Let_def
        u_safe_success [of mkstemp w] u_safe_def [of "transport_get (lock r t) (Tmp (next_tmp w))"])
qed

lemma listCorrupted_loop_filter:
  assumes "\<forall>file mt. (file, mt) \<in> set ls \<and> isLock r file \<longrightarrow>
      lock_info_at info r (remote w) (essential_join remote_dir (fromLock r file)) = Inr (li file)"
  shows "\<exists>w'. listCorrupted_loop info r now remote_dir ls locks w =
      Inr (locks @ map (\<lambda>(file, mt). li file)
             (filter (\<lambda>(file, mt). isLock r file \<and>
                (truthy (owner (li file)) \<and> owner (li file) = client r
                 \<or> \<not> truthy (owner (li file)) \<and> mtime_truthy mt \<and> lock_timeout r \<noteq> 0
                    \<and> real_of_int (lock_timeout r) < now - mtime_seconds mt)) ls), w')
      \<and> remote w' = remote w"
  using assms
proof (induction ls arbitrary: locks w)
  case Nil
  then show ?case by simp
next
  case (Cons e ls)
  obtain fl mt where e: "e = (fl, mt)" by (cases e)
  have prem: "\<forall>file mt. (file, mt) \<in> set ls \<and> isLock r file \<longrightarrow>
      lock_info_at info r (remote w) (essential_join remote_dir (fromLock r file)) = Inr (li file)"
    using Cons.prems by auto
  show ?case
  proof (cases "isLock r fl")
    case False
    have "\<exists>w'. listCorrupted_loop info r now remote_dir ls locks w = Inr (locks @ map (\<lambda>(file, mt). li file)
             (filter (\<lambda>(file, mt). isLock r file \<and>
                (truthy (owner (li file)) \<and> owner (li file) = client r
                 \<or> \<not> truthy (owner (li file)) \<and> mtime_truthy mt \<and> lock_timeout r \<noteq> 0
                    \<and> real_of_int (lock_timeout r) < now - mtime_seconds mt)) ls), w')
      \<and> remote w' = remote w"
      by (rule Cons.IH [OF prem])
    then show ?thesis using False by (simp add: e)
  next
    case True
    let ?w1 = "w\<lparr> local_files := (local_files w)(Tmp (next_tmp w) := None),
                next_tmp := Suc (next_tmp w) \<rparr>"
    have "lock_info_at info r (remote w) (essential_join remote_dir (fromLock r fl)) = Inr (li fl)"
      using Cons.prems True by (auto simp: e)
    then have g: "getLockInfo info r (essential_join remote_dir (fromLock r fl)) w = Inr (li fl, ?w1)"
      by (rule getLockInfo_eq)
    have ih: "\<exists>w'. listCorrupted_loop info r now remote_dir ls locks' ?w1 = Inr (locks' @ map (\<lambda>(file, mt). li file)
             (filter (\<lambda>(file, mt). isLock r file \<and>
                (truthy (owner (li file)) \<and> owner (li file) = client r
                 \<or> \<not> truthy (owner (li file)) \<and> mtime_truthy mt \<and> lock_timeout r \<noteq> 0
                    \<and> real_of_int (lock_timeout r) < now - mtime_seconds mt)) ls), w')
      \<and> remote w' = remote w" for locks'
      using Cons.IH [of ?w1 locks'] prem by simp
    show ?thesis
      using True ih [of locks] ih [of "locks @ [li fl]"]
      by (auto simp: e g)
  qed
qed

section \<open>Corrupted locks\<close>

text \<open>
  Claim C3, amended. \<open>listCorrupted\<close> returns, in the order of the listing, the lock
  information of exactly the entries that are locks and either (a) have a non-empty owner
  equal to this client, whatever their age, or (b) have no owner, a modification time that
  is present and not zero, while \<open>lock_timeout\<close> is enabled (not zero) and smaller than the
  age of the lock. A lock owned by another client is never listed.
\<close>

theorem listCorrupted_exact:
  assumes "u_list_mtime (remote_dir, recursive) = Inr ls"
    and "\<forall>file mt. (file, mt) \<in> set ls \<and> isLock r file \<longrightarrow>
      lock_info_at info r (remote w) (essential_join remote_dir (fromLock r file)) = Inr (li file)"
  shows "\<exists>w'. listCorrupted info r now u_list_mtime remote_dir recursive w =
      Inr (map (\<lambda>(file, mt). li file)
             (filter (\<lambda>(file, mt). isLock r file \<and>
                (truthy (owner (li file)) \<and> owner (li file) = client r
                 \<or> \<not> truthy (owner (li file)) \<and> mtime_truthy mt \<and> lock_timeout r \<noteq> 0
                    \<and> real_of_int (lock_timeout r) < now - mtime_seconds mt)) ls), w')"
proof (cases "truthy (client r) \<or> lock_timeout r \<noteq> 0")
  case True
  have "u_safe u_list_mtime (remote_dir, recursive) = Inr ls"
    using assms(1) u_safe_success [of u_list_mtime "(remote_dir, recursive)" ls] by simp
  then show ?thesis
    using True listCorrupted_loop_filter [OF assms(2), of now "[]"]
    by (auto simp: listCorrupted_def)
next
  case False
  then have "filter (\<lambda>(file, mt). isLock r file \<and>
                (truthy (owner (li file)) \<and> owner (li file) = client r
                 \<or> \<not> truthy (owner (li file)) \<and> mtime_truthy mt \<and> lock_timeout r \<noteq> 0
                    \<and> real_of_int (lock_timeout r) < now - mtime_seconds mt)) ls = []"
    by (auto simp: filter_empty_conv)
  then show ?thesis
    using False by (simp add: listCorrupted_def)
qed

lemmas lock_eval = lock_info_at_def fromLock_def u_fromLock_def py_slice_def LockInfo_def
  truthy_def mtime_truthy_def mtime_seconds_def

theorem listCorrupted_exact_witness:
  "\<exists>w'. listCorrupted
      \<lparr> repr_LockInfo = (\<lambda>i. ''lock''),
        parse_lock_file = (\<lambda>a. Inr \<lparr> owner = (if fst a = [] then None else Some (fst a)),
                                      mode = None, target = Some (snd a) \<rparr>) \<rparr>
      (projr (Relay_init (Some ''A'') (TBool True) False)) 1700000000
      (\<lambda>a. Inr [(''.mine.lock'', Epoch 1699999999), (''.theirs.lock'', Epoch 5),
                 (''.old.lock'', Epoch 1000), (''data'', Epoch 5)])
      [] True
      \<lparr> remote = [(''.mine.lock'', ''A''), (''.theirs.lock'', ''B''), (''.old.lock'', []),
                   (''data'', ''d'')],
        local_files = Map.empty, next_tmp = 0, u_temporary_files = [],
          python_version = 3, decodes = (\<lambda>c. True) \<rparr>
    = Inr ([\<lparr> owner = Some ''A'', mode = None, target = Some ''mine'' \<rparr>,
            \<lparr> owner = None, mode = None, target = Some ''old'' \<rparr>], w')"
proof -
  let ?info = "\<lparr> repr_LockInfo = (\<lambda>i. ''lock''),
        parse_lock_file = (\<lambda>a. Inr \<lparr> owner = (if fst a = [] then None else Some (fst a)),
                                      mode = None, target = Some (snd a) \<rparr>) \<rparr>"
  let ?r = "projr (Relay_init (Some ''A'') (TBool True) False)"
  let ?ls = "[(''.mine.lock'', Epoch 1699999999), (''.theirs.lock'', Epoch 5),
                 (''.old.lock'', Epoch 1000), (''data'', Epoch 5)]"
  let ?w = "\<lparr> remote = [(''.mine.lock'', ''A''), (''.theirs.lock'', ''B''), (''.old.lock'', []),
                   (''data'', ''d'')],
        local_files = Map.empty, next_tmp = 0, u_temporary_files = [],
          python_version = 3, decodes = (\<lambda>c. True) \<rparr>"
  let ?li = "\<lambda>file. \<lparr> owner = (if file = ''.mine.lock'' then Some ''A''
                           else if file = ''.theirs.lock'' then Some ''B'' else None),
                  mode = None,
                  target = Some (if file = ''.mine.lock'' then ''mine''
                                 else if file = ''.theirs.lock'' then ''theirs'' else ''old'') \<rparr>"
  have hyp: "\<forall>file mt. (file, mt) \<in> set ?ls \<and> isLock ?r file \<longrightarrow>
      lock_info_at ?info ?r (remote ?w) (essential_join [] (fromLock ?r file)) = Inr (?li file)"
  proof (intro allI impI, elim conjE)
    fix fl mt
    assume mem: "(fl, mt) \<in> set ?ls" and lk: "isLock ?r fl"
    from mem consider "fl = ''.mine.lock''" | "fl = ''.theirs.lock''" | "fl = ''.old.lock''"
      | "fl = ''data''"
      by auto
    then show "lock_info_at ?info ?r (remote ?w) (essential_join [] (fromLock ?r fl)) = Inr (?li fl)"
    proof cases
      case 1 then show ?thesis by (simp add: codec_eval lock_eval u_safe_def)
    next
      case 2 then show ?thesis by (simp add: codec_eval lock_eval u_safe_def)
    next
      case 3 then show ?thesis by (simp add: codec_eval lock_eval u_safe_def)
    next
      case 4 with lk show ?thesis by (simp add: codec_eval)
    qed
  qed
  have flt: "map (\<lambda>(file, mt). ?li file)
             (filter (\<lambda>(file, mt). isLock ?r file \<and>
                (truthy (owner (?li file)) \<and> owner (?li file) = client ?r
                 \<or> \<not> truthy (owner (?li file)) \<and> mtime_truthy mt \<and> lock_timeout ?r \<noteq> 0
                    \<and> real_of_int (lock_timeout ?r) < 1700000000 - mtime_seconds mt)) ?ls)
      = [\<lparr> owner = Some ''A'', mode = None, target = Some ''mine'' \<rparr>,
         \<lparr> owner = None, mode = None, target = Some ''old'' \<rparr>]"
    by (simp add: codec_eval lock_eval)
  show ?thesis
    using listCorrupted_exact [of "\<lambda>a. Inr ?ls" "[]" True ?ls ?r ?info ?w ?li 1700000000, OF _ hyp]
    unfolding flt by simp
qed

text \<open>
  Claim C3 as stated fails: an ownerless lock older than \<open>lock_timeout\<close> is not listed when
  its modification time is the epoch itself, nor when \<open>lock_timeout\<close> is 0.
\<close>

theorem listCorrupted_skips_stale_ownerless_locks:
  "map_sum id fst
     (listCorrupted \<lparr> repr_LockInfo = (\<lambda>i. ''lock''), parse_lock_file = (\<lambda>a. Inr LockInfo) \<rparr>
        (projr (Relay_init (Some ''A'') (TBool True) False)) 1700000000
        (\<lambda>a. Inr [(''.x.lock'', Epoch 0)]) [] True
        \<lparr> remote = [(''.x.lock'', [])], local_files = Map.empty, next_tmp = 0,
          u_temporary_files = [],
          python_version = 3, decodes = (\<lambda>c. True) \<rparr>) = Inr []
   \<and> isLock (projr (Relay_init (Some ''A'') (TBool True) False)) ''.x.lock''
   \<and> lock_info_at \<lparr> repr_LockInfo = (\<lambda>i. ''lock''), parse_lock_file = (\<lambda>a. Inr LockInfo) \<rparr>
        (projr (Relay_init (Some ''A'') (TBool True) False)) [(''.x.lock'', [])] ''x''
       = Inr \<lparr> owner = None, mode = None, target = None \<rparr>
   \<and> real_of_int (lock_timeout (projr (Relay_init (Some ''A'') (TBool True) False)))
       < 1700000000 - mtime_seconds (Epoch 0)
   \<and> map_sum id fst
     (listCorrupted \<lparr> repr_LockInfo = (\<lambda>i. ''lock''), parse_lock_file = (\<lambda>a. Inr LockInfo) \<rparr>
        (projr (Relay_init (Some ''A'') (TInt 0) False)) 5000
        (\<lambda>a. Inr [(''.x.lock'', Epoch 1000)]) [] True
        \<lparr> remote = [(''.x.lock'', [])], local_files = Map.empty, next_tmp = 0,
          u_temporary_files = [],
          python_version = 3, decodes = (\<lambda>c. True) \<rparr>) = Inr []
   \<and> real_of_int (lock_timeout (projr (Relay_init (Some ''A'') (TInt 0) False)))
       < 5000 - mtime_seconds (Epoch 1000)"
  by (simp add: codec_eval lock_eval u_safe_def listCorrupted_def getLockInfo_def mkstemp_def
      transport_get_def os_unlink_def Let_def)

end
